theory Spec2Isabelle
  imports Complex_Main
begin

section \<open>Errors\<close>

text \<open>
  Every exception the modelled code can raise is a value. \<open>YamlParseError\<close> is the
  class of \<open>yamlbuild.py\<close>, carrying its message; the others are Python's own.
\<close>

datatype error =
    YamlParseError string
  | UnboundLocalError
  | ValueError
  | KeyError string
  | OSError string
  | IOError string

section \<open>Geometry: \<open>compute_min_dist\<close> and \<open>remove_overlap\<close>\<close>

subsection \<open>Floating-point values\<close>

text \<open>
  A coordinate is an IEEE 754 double: a finite number, an infinity or NaN. The special
  values behave as in IEEE 754: NaN propagates through every operation, \<open>inf - inf\<close>,
  \<open>0 * inf\<close>, \<open>0 / 0\<close>, \<open>inf / inf\<close> and the square root of a negative number are NaN,
  and every comparison with NaN is false. Arithmetic on finite numbers is exact: the
  model has no rounding and one zero, and a finite result does not overflow, so an
  infinity or NaN comes from the inputs or from the operations above.
\<close>

datatype float64 = Fin real | PInf | NInf | NaN

fun fneg :: "float64 \<Rightarrow> float64" where
  "fneg (Fin a) = Fin (- a)"
| "fneg PInf = NInf"
| "fneg NInf = PInf"
| "fneg NaN = NaN"

fun fadd :: "float64 \<Rightarrow> float64 \<Rightarrow> float64" where
  "fadd (Fin a) (Fin b) = Fin (a + b)"
| "fadd NaN y = NaN"
| "fadd x NaN = NaN"
| "fadd PInf NInf = NaN"
| "fadd NInf PInf = NaN"
| "fadd PInf y = PInf"
| "fadd NInf y = NInf"
| "fadd x PInf = PInf"
| "fadd x NInf = NInf"

definition fsub :: "float64 \<Rightarrow> float64 \<Rightarrow> float64" where
  "fsub x y = fadd x (fneg y)"

text \<open>The infinity with the sign of a finite factor; NaN when the factor is zero.\<close>

definition inf_of_sign :: "real \<Rightarrow> float64" where
  "inf_of_sign a = (if 0 < a then PInf else if a < 0 then NInf else NaN)"

fun fmul :: "float64 \<Rightarrow> float64 \<Rightarrow> float64" where
  "fmul (Fin a) (Fin b) = Fin (a * b)"
| "fmul NaN y = NaN"
| "fmul x NaN = NaN"
| "fmul (Fin a) PInf = inf_of_sign a"
| "fmul (Fin a) NInf = inf_of_sign (- a)"
| "fmul PInf (Fin b) = inf_of_sign b"
| "fmul NInf (Fin b) = inf_of_sign (- b)"
| "fmul PInf PInf = PInf"
| "fmul PInf NInf = NInf"
| "fmul NInf PInf = NInf"
| "fmul NInf NInf = PInf"

fun fdiv :: "float64 \<Rightarrow> float64 \<Rightarrow> float64" where
  "fdiv (Fin a) (Fin b) = (if b = 0 then inf_of_sign a else Fin (a / b))"
| "fdiv NaN y = NaN"
| "fdiv x NaN = NaN"
| "fdiv (Fin a) PInf = Fin 0"
| "fdiv (Fin a) NInf = Fin 0"
| "fdiv PInf (Fin b) = (if b < 0 then NInf else PInf)"
| "fdiv NInf (Fin b) = (if b < 0 then PInf else NInf)"
| "fdiv x y = NaN"

fun fsqrt :: "float64 \<Rightarrow> float64" where
  "fsqrt (Fin a) = (if a < 0 then NaN else Fin (sqrt a))"
| "fsqrt PInf = PInf"
| "fsqrt NInf = NaN"
| "fsqrt NaN = NaN"

text \<open>The comparisons \<open><=\<close> and \<open><\<close>.\<close>

fun fle :: "float64 \<Rightarrow> float64 \<Rightarrow> bool" where
  "fle (Fin a) (Fin b) = (a \<le> b)"
| "fle NaN y = False"
| "fle x NaN = False"
| "fle NInf y = True"
| "fle x PInf = True"
| "fle x y = False"

fun flt :: "float64 \<Rightarrow> float64 \<Rightarrow> bool" where
  "flt (Fin a) (Fin b) = (a < b)"
| "flt NaN y = False"
| "flt x NaN = False"
| "flt PInf y = False"
| "flt x NInf = False"
| "flt x y = True"

text \<open>
  Python's builtin \<open>min(a, b)\<close>: it keeps the first argument unless the second compares
  less than it.
\<close>

definition py_min :: "float64 \<Rightarrow> float64 \<Rightarrow> float64" where
  "py_min a b = (if flt b a then b else a)"

subsection \<open>Position arrays\<close>

text \<open>A position array of shape \<open>(n, 3)\<close> is a list of triples.\<close>

type_synonym vec = "float64 \<times> float64 \<times> float64"
type_synonym positions = "vec list"
type_synonym matrix = "vec \<times> vec \<times> vec"

fun vadd :: "vec \<Rightarrow> vec \<Rightarrow> vec" where
  "vadd (a, b, c) (x, y, z) = (fadd a x, fadd b y, fadd c z)"

fun vsub :: "vec \<Rightarrow> vec \<Rightarrow> vec" where
  "vsub (a, b, c) (x, y, z) = (fsub a x, fsub b y, fsub c z)"

fun smul :: "float64 \<Rightarrow> vec \<Rightarrow> vec" where
  "smul s (x, y, z) = (fmul s x, fmul s y, fmul s z)"

fun dot :: "vec \<Rightarrow> vec \<Rightarrow> float64" where
  "dot (a, b, c) (x, y, z) = fadd (fadd (fmul a x) (fmul b y)) (fmul c z)"

definition fsquare :: "float64 \<Rightarrow> float64" where
  "fsquare x = fmul x x"

text \<open>\<open>((pos1 - pos2)**2).sum(1)\<close> for one row of \<open>pos1\<close>.\<close>

fun dist2 :: "vec \<Rightarrow> vec \<Rightarrow> float64" where
  "dist2 (a, b, c) (x, y, z) =
     fadd (fadd (fsquare (fsub a x)) (fsquare (fsub b y))) (fsquare (fsub c z))"

text \<open>
  \<open>distances2\<close>: one row per atom \<open>pos2\<close> of \<open>mol_positions\<close>, holding the squared
  distances from \<open>pos2\<close> to every atom of \<open>pos1\<close>.
\<close>

definition distances2 :: "positions \<Rightarrow> positions \<Rightarrow> float64 list list" where
  "distances2 mol_positions pos1 =
     map (\<lambda>pos2. map (\<lambda>p1. dist2 p1 pos2) pos1) mol_positions"

text \<open>
  \<open>ndarray.argmin()\<close> works on the flattened (row-major) array. It returns the index
  of the first NaN when the array holds one, and otherwise the index of the first
  occurrence of the minimum.
\<close>

fun argmin :: "float64 list \<Rightarrow> nat" where
  "argmin [] = 0"
| "argmin [x] = 0"
| "argmin (x # y # ys) =
     (let i = argmin (y # ys) in if x = NaN \<or> fle x ((y # ys) ! i) then 0 else Suc i)"

text \<open>
  One pass of the loop body of \<open>compute_min_dist\<close>: the entry of \<open>distances2\<close> at
  \<open>unravel_index(argmin)\<close> is the entry of the flattened array at \<open>argmin\<close>. On an
  array without entries \<open>argmin\<close> raises \<open>ValueError\<close>.
\<close>

definition group_min_dist :: "positions \<Rightarrow> positions \<Rightarrow> error + float64" where
  "group_min_dist mol_positions pos1 =
     (let flat = concat (distances2 mol_positions pos1)
      in if flat = [] then Inl ValueError else Inr (fsqrt (flat ! argmin flat)))"

text \<open>
  The loop over \<open>args\<close>. The accumulator is the local \<open>min_dist\<close>, \<open>None\<close> while it
  is unbound (the \<open>except UnboundLocalError\<close> branch binds it).
\<close>

fun compute_min_dist_loop ::
  "float64 option \<Rightarrow> positions \<Rightarrow> positions list \<Rightarrow> error + float64 option" where
  "compute_min_dist_loop min_dist mol_positions [] = Inr min_dist"
| "compute_min_dist_loop min_dist mol_positions (pos1 # rest) =
     (case group_min_dist mol_positions pos1 of
        Inl e \<Rightarrow> Inl e
      | Inr d \<Rightarrow>
          compute_min_dist_loop
            (case min_dist of None \<Rightarrow> Some d | Some m \<Rightarrow> Some (py_min m d))
            mol_positions rest)"

text \<open>\<open>return min_dist\<close> raises \<open>UnboundLocalError\<close> when \<open>args\<close> was empty.\<close>

definition compute_min_dist :: "positions \<Rightarrow> positions list \<Rightarrow> error + float64" where
  "compute_min_dist mol_positions args =
     (case compute_min_dist_loop None mol_positions args of
        Inl e \<Rightarrow> Inl e
      | Inr None \<Rightarrow> Inl UnboundLocalError
      | Inr (Some d) \<Rightarrow> Inr d)"

subsection \<open>Arrays as heap objects\<close>

text \<open>
  \<open>remove_overlap\<close> copies its argument and then updates the copy in place, so arrays
  are objects in a store: \<open>cells\<close> maps an address to the array stored there and
  \<open>fresh\<close> is the next unused address.
\<close>

record heap =
  cells :: "nat \<Rightarrow> positions"
  fresh :: nat

definition alloc :: "positions \<Rightarrow> heap \<Rightarrow> nat \<times> heap" where
  "alloc v h = (fresh h, h\<lparr>cells := (cells h)(fresh h := v), fresh := Suc (fresh h)\<rparr>)"

text \<open>
  \<open>x.mean(0)\<close>: the centre of geometry, the sum of the rows divided by their number.
\<close>

definition mean0 :: "positions \<Rightarrow> vec" where
  "mean0 x =
     (case foldr vadd x (Fin 0, Fin 0, Fin 0) of
        (a, b, c) \<Rightarrow>
          (fdiv a (Fin (real (length x))), fdiv b (Fin (real (length x))),
           fdiv c (Fin (real (length x)))))"

definition matvec :: "matrix \<Rightarrow> vec \<Rightarrow> vec" where
  "matvec Rq v = (case Rq of (r1, r2, r3) \<Rightarrow> (dot r1 v, dot r2 v, dot r3 v))"

text \<open>\<open>((Rq * np.matrix(x - x0).T).T + x0).A\<close>\<close>

definition rotate_about :: "matrix \<Rightarrow> vec \<Rightarrow> positions \<Rightarrow> positions" where
  "rotate_about Rq x0 x = map (\<lambda>p. vadd (matvec Rq (vsub p x0)) x0) x"

text \<open>
  The body of the \<open>while\<close> loop. The random source is a sequence of draws: draw \<open>k\<close>
  is the rotation matrix \<open>Rq\<close> of the \<open>k\<close>-th iteration (built by the sampling module
  from a random quaternion) and the vector \<open>np.random.randn(3)\<close>. The rotated array is
  a new object; \<open>x += ...\<close> then updates that object in place.
\<close>

definition overlap_step ::
  "(nat \<Rightarrow> matrix \<times> vec) \<Rightarrow> float64 \<Rightarrow> heap \<Rightarrow> nat \<Rightarrow> nat \<Rightarrow> heap \<times> nat \<times> nat" where
  "overlap_step rnd sigma h x k =
     (let x0 = mean0 (cells h x);
          (Rq, g) = rnd k;
          (x', h') = alloc (rotate_about Rq x0 (cells h x)) h;
          h'' = h'\<lparr>cells := (cells h')(x' := map (\<lambda>p. vadd p (smul sigma g)) (cells h' x'))\<rparr>
      in (h'', x', Suc k))"

text \<open>
  The \<open>while\<close> loop has no bound in the source, so the model returns an option: \<open>None\<close>
  is a loop that never ends. The state is the heap, the address bound to \<open>x\<close> and the
  number of iterations done. The guard is the comparison \<open><=\<close> of the source: it is
  false, and the loop ends, also when the distance or \<open>min_distance\<close> is NaN.
\<close>

partial_function (option) remove_overlap_loop ::
  "(nat \<Rightarrow> matrix \<times> vec) \<Rightarrow> nat list \<Rightarrow> float64 \<Rightarrow> float64 \<Rightarrow> heap \<times> nat \<times> nat
     \<Rightarrow> (error + heap \<times> nat \<times> nat) option" where
  "remove_overlap_loop rnd args sigma min_distance st =
     (case st of (h, x, k) \<Rightarrow>
        (case compute_min_dist (cells h x) (map (cells h) args) of
           Inl e \<Rightarrow> Some (Inl e)
         | Inr d \<Rightarrow>
             if fle d min_distance
             then remove_overlap_loop rnd args sigma min_distance (overlap_step rnd sigma h x k)
             else Some (Inr (h, x, k))))"

text \<open>
  \<open>remove_overlap(mol_positions, *args, **kwargs)\<close>: the arguments are addresses of
  arrays, the keyword arguments are optional with default \<open>1.0\<close>. The result is the
  final heap, the address of the returned array and the number of iterations.
\<close>

definition remove_overlap ::
  "(nat \<Rightarrow> matrix \<times> vec) \<Rightarrow> heap \<Rightarrow> nat \<Rightarrow> nat list \<Rightarrow> float64 option \<Rightarrow> float64 option
     \<Rightarrow> (error + heap \<times> nat \<times> nat) option" where
  "remove_overlap rnd h mol_positions args sigma_kw min_distance_kw =
     (let (x, h1) = alloc (cells h mol_positions) h;
          sigma = (case sigma_kw of None \<Rightarrow> Fin 1 | Some s \<Rightarrow> s);
          min_distance = (case min_distance_kw of None \<Rightarrow> Fin 1 | Some m \<Rightarrow> m)
      in remove_overlap_loop rnd args sigma min_distance (h1, x, 0))"

section \<open>Paths\<close>

text \<open>
  \<open>os.path.join\<close> on POSIX: a component that starts with a slash replaces what came
  before it; otherwise a slash is inserted unless the path so far is empty or ends with
  one.
\<close>

definition join2 :: "string \<Rightarrow> string \<Rightarrow> string" where
  "join2 path b =
     (if take 1 b = ''/'' then b
      else if path = [] \<or> last path = CHR ''/'' then path @ b
      else path @ ''/'' @ b)"

definition path_join :: "string \<Rightarrow> string list \<Rightarrow> string" where
  "path_join a p = foldl join2 a p"

text \<open>\<open>str.rfind\<close> for a single character: the last index, or \<open>-1\<close>.\<close>

fun rfind_from :: "char \<Rightarrow> string \<Rightarrow> int \<Rightarrow> int \<Rightarrow> int" where
  "rfind_from c [] i found = found"
| "rfind_from c (x # xs) i found = rfind_from c xs (i + 1) (if x = c then i else found)"

definition rfind :: "char \<Rightarrow> string \<Rightarrow> int" where
  "rfind c p = rfind_from c p 0 (- 1)"

text \<open>
  \<open>os.path.splitext\<close>: the extension starts at the last dot of the last path
  component, unless that component consists of leading dots only up to there.
\<close>

definition splitext :: "string \<Rightarrow> string \<times> string" where
  "splitext p =
     (let sepIndex = rfind CHR ''/'' p;
          dotIndex = rfind CHR ''.'' p
      in if dotIndex > sepIndex \<and>
            list_ex (\<lambda>i. p ! i \<noteq> CHR ''.'') [nat (sepIndex + 1)..<nat dotIndex]
         then (take (nat dotIndex) p, drop (nat dotIndex) p)
         else (p, []))"

text \<open>\<open>os.path.basename\<close>: what follows the last slash.\<close>

definition basename :: "string \<Rightarrow> string" where
  "basename p = drop (nat (rfind CHR ''/'' p + 1)) p"

text \<open>\<open>sep.join(items)\<close>\<close>

fun str_join :: "string \<Rightarrow> string list \<Rightarrow> string" where
  "str_join sep [] = []"
| "str_join sep [x] = x"
| "str_join sep (x # y # ys) = x @ sep @ str_join sep (y # ys)"

text \<open>\<open>needle in haystack\<close> for strings.\<close>

fun contains :: "string \<Rightarrow> string \<Rightarrow> bool" where
  "contains needle [] = (needle = [])"
| "contains needle (c # cs) = (take (length needle) (c # cs) = needle \<or> contains needle cs)"

text \<open>The class constants of \<open>YamlBuilder\<close> and its three path builders.\<close>

definition SETUP_DIR :: string where
  "SETUP_DIR = ''setup''"

definition SETUP_SYSTEMS_DIR :: string where
  "SETUP_SYSTEMS_DIR = path_join SETUP_DIR [''systems'']"

definition SETUP_MOLECULES_DIR :: string where
  "SETUP_MOLECULES_DIR = path_join SETUP_DIR [''molecules'']"

definition EXPERIMENTS_DIR :: string where
  "EXPERIMENTS_DIR = ''experiments''"

definition get_molecule_setup_dir :: "string \<Rightarrow> string \<Rightarrow> string" where
  "get_molecule_setup_dir output_dir molecule_id =
     path_join output_dir [SETUP_MOLECULES_DIR, molecule_id]"

definition get_system_setup_dir :: "string \<Rightarrow> string \<Rightarrow> string \<Rightarrow> string \<Rightarrow> string" where
  "get_system_setup_dir output_dir receptor_id ligand_id solvent_id =
     (let system_dir = str_join ''_'' [receptor_id, ligand_id, solvent_id]
      in path_join output_dir [SETUP_SYSTEMS_DIR, system_dir])"

definition get_experiment_dir :: "string \<Rightarrow> string \<Rightarrow> string" where
  "get_experiment_dir output_dir experiment_dir =
     path_join output_dir [EXPERIMENTS_DIR, experiment_dir]"

section \<open>Descriptors\<close>

text \<open>
  Values of the configuration document that the builder passes on without looking into
  them: scalars, constants of \<open>openmm.app\<close> by name, and quantities with their unit.
\<close>

datatype yvalue =
    VBool bool
  | VInt int
  | VFloat real
  | VStr string
  | VApp string
  | VQuantity real string

text \<open>
  A molecule descriptor after \<open>utils.validate_parameters\<close> against \<open>template_mol\<close>
  with \<open>check_unknown\<close>: a dictionary whose keys are among the five of the template,
  each present or absent.
\<close>

record mol_descr =
  mol_filepath :: "string option"
  mol_name :: "string option"
  mol_smiles :: "string option"
  mol_parameters :: "string option"
  mol_epik :: "int option"

definition mol_fields :: "mol_descr \<Rightarrow> string set" where
  "mol_fields m =
     (if mol_filepath m = None then {} else {''filepath''}) \<union>
     (if mol_name m = None then {} else {''name''}) \<union>
     (if mol_smiles m = None then {} else {''smiles''}) \<union>
     (if mol_parameters m = None then {} else {''parameters''}) \<union>
     (if mol_epik m = None then {} else {''epik''})"

text \<open>
  A solvent descriptor after validation against \<open>template_parameters\<close>: the two
  \<open>openmm.app\<close> constants by name, the two distances in angstroms.
\<close>

record solvent =
  nonbondedMethod :: "string option"
  nonbondedCutoff :: "real option"
  implicitSolvent :: "string option"
  clearance :: "real option"

section \<open>Validation of molecules and solvents\<close>

text \<open>
  The sets \<open>file_formats\<close> and \<open>sources\<close> of \<open>_parse_molecules\<close>. The order in
  which Python lists the elements of a set only shows in the text of two messages.
\<close>

definition file_formats :: "string list" where
  "file_formats = [''mol2'', ''pdb'']"

definition sources :: "string list" where
  "sources = [''filepath'', ''name'', ''smiles'']"

text \<open>\<open>os.path.splitext(molecule['filepath'])[1][1:]\<close>\<close>

definition extension :: "string \<Rightarrow> string" where
  "extension path = drop 1 (snd (splitext path))"

text \<open>
  The second loop of \<open>_parse_molecules\<close> over the items of the validated table. The
  local \<open>err_msg\<close> is set once before the loop and is an argument here.
\<close>

fun parse_molecules_loop :: "string \<Rightarrow> (string \<times> mol_descr) list \<Rightarrow> error + unit" where
  "parse_molecules_loop err_msg [] = Inr ()"
| "parse_molecules_loop err_msg ((molecule_id, molecule) # rest) =
     (let fields = mol_fields molecule;
          specified_sources = filter (\<lambda>k. k \<in> fields) sources;
          err_msg1 =
            (if specified_sources = [] \<or> length specified_sources > 1
             then ''need only one between '' @ str_join '', '' sources @
                  '' for molecule '' @ molecule_id
             else if ''filepath'' \<in> set specified_sources
             then (case mol_filepath molecule of
                     None \<Rightarrow> err_msg
                   | Some path \<Rightarrow>
                       if extension path \<notin> set file_formats
                       then ''molecule '' @ molecule_id @ '', only '' @
                            str_join '', '' file_formats @ '' files supported''
                       else err_msg)
             else err_msg);
          err_msg2 =
            (if ''parameters'' \<notin> fields
             then ''no parameters specified for molecule '' @ molecule_id
             else err_msg1)
      in if err_msg2 \<noteq> [] then Inl (YamlParseError err_msg2)
         else parse_molecules_loop err_msg2 rest)"

definition parse_molecules :: "(string \<times> mol_descr) list \<Rightarrow> error + unit" where
  "parse_molecules molecules = parse_molecules_loop [] molecules"

text \<open>The second loop of \<open>_parse_solvents\<close>, in the same way.\<close>

fun parse_solvents_loop :: "string \<Rightarrow> (string \<times> solvent) list \<Rightarrow> error + unit" where
  "parse_solvents_loop err_msg [] = Inr ()"
| "parse_solvents_loop err_msg ((solvent_id, solv) # rest) =
     (case nonbondedMethod solv of
        None \<Rightarrow>
          Inl (YamlParseError (''solvent '' @ solvent_id @ '' must specify nonbondedMethod''))
      | Some nonbonded_method \<Rightarrow>
          (let err_msg1 =
                 (if nonbonded_method = ''NoCutoff''
                  then (if nonbondedCutoff solv \<noteq> None
                        then ''solvent '' @ solvent_id @
                             '' specify both nonbondedMethod: NoCutoff and and nonbondedCutoff''
                        else err_msg)
                  else (if implicitSolvent solv \<noteq> None
                        then ''solvent '' @ solvent_id @ '' specify both nonbondedMethod: '' @
                             nonbonded_method @ '' and implicitSolvent''
                        else if clearance solv = None
                        then ''solvent '' @ solvent_id @
                             '' uses explicit solvent but no clearance specified''
                        else err_msg))
           in if err_msg1 \<noteq> [] then Inl (YamlParseError err_msg1)
              else parse_solvents_loop err_msg1 rest))"

definition parse_solvents :: "(string \<times> solvent) list \<Rightarrow> error + unit" where
  "parse_solvents solvents = parse_solvents_loop [] solvents"

text \<open>
  The rules as the specification words them, to compare the loops with. A molecule is
  valid when it names exactly one source, a file source has a supported extension, and
  parameters are given.
\<close>

definition spec_molecule_valid :: "mol_descr \<Rightarrow> bool" where
  "spec_molecule_valid m \<longleftrightarrow>
     length (filter (\<lambda>b. b) [mol_filepath m \<noteq> None, mol_name m \<noteq> None, mol_smiles m \<noteq> None]) = 1 \<and>
     (case mol_filepath m of
        None \<Rightarrow> True
      | Some path \<Rightarrow> extension path = ''mol2'' \<or> extension path = ''pdb'') \<and>
     mol_parameters m \<noteq> None"

text \<open>The four ways the specification says a solvent is rejected.\<close>

definition spec_solvent_rejected :: "solvent \<Rightarrow> bool" where
  "spec_solvent_rejected solv \<longleftrightarrow>
     nonbondedMethod solv = None \<or>
     (nonbondedMethod solv = Some ''NoCutoff'' \<and> nonbondedCutoff solv \<noteq> None) \<or>
     (nonbondedMethod solv \<noteq> Some ''NoCutoff'' \<and> implicitSolvent solv \<noteq> None) \<or>
     (nonbondedMethod solv \<noteq> Some ''NoCutoff'' \<and> implicitSolvent solv = None \<and>
      clearance solv = None)"

text \<open>The solvent the specification says is accepted.\<close>

definition spec_solvent_accepted :: "solvent \<Rightarrow> bool" where
  "spec_solvent_accepted solv \<longleftrightarrow>
     (\<exists>m. nonbondedMethod solv = Some m \<and> m \<noteq> ''NoCutoff'') \<and>
     clearance solv \<noteq> None \<and> implicitSolvent solv = None"

section \<open>The builder, its environment and its effects\<close>

text \<open>
  Option dictionaries. The keys that \<open>yamlbuild.py\<close> reads by name are fields; every
  other key (\<open>constraints\<close>, \<open>hydrogenMass\<close> and the parameters of the simulation
  engine) is kept in a map. \<open>option_dict\<close> is a dictionary in which any key may be
  missing: the \<open>options\<close> section of the document or of one experiment.
\<close>

record option_dict =
  o_verbose :: "bool option"
  o_mpi :: "bool option"
  o_resume_setup :: "bool option"
  o_resume_simulation :: "bool option"
  o_output_dir :: "string option"
  o_temperature :: "yvalue option"
  o_pressure :: "yvalue option"
  o_extra :: "string \<rightharpoonup> yvalue"

definition empty_dict :: option_dict where
  "empty_dict = \<lparr>o_verbose = None, o_mpi = None, o_resume_setup = None,
     o_resume_simulation = None, o_output_dir = None, o_temperature = None,
     o_pressure = None, o_extra = Map.empty\<rparr>"

text \<open>
  \<open>self.options\<close> starts as a copy of \<open>DEFAULT_OPTIONS\<close>, so the keys of that
  dictionary are always present.
\<close>

record option_set =
  opt_verbose :: bool
  opt_mpi :: bool
  opt_resume_setup :: bool
  opt_resume_simulation :: bool
  opt_output_dir :: string
  opt_temperature :: yvalue
  opt_pressure :: yvalue
  opt_extra :: "string \<rightharpoonup> yvalue"

definition pick :: "'a option \<Rightarrow> 'a option \<Rightarrow> 'a option" where
  "pick new old = (case new of None \<Rightarrow> old | Some v \<Rightarrow> Some v)"

text \<open>\<open>base.update(upd)\<close> for two dictionaries of options.\<close>

definition update_dict :: "option_dict \<Rightarrow> option_dict \<Rightarrow> option_dict" where
  "update_dict base upd =
     \<lparr>o_verbose = pick (o_verbose upd) (o_verbose base),
      o_mpi = pick (o_mpi upd) (o_mpi base),
      o_resume_setup = pick (o_resume_setup upd) (o_resume_setup base),
      o_resume_simulation = pick (o_resume_simulation upd) (o_resume_simulation base),
      o_output_dir = pick (o_output_dir upd) (o_output_dir base),
      o_temperature = pick (o_temperature upd) (o_temperature base),
      o_pressure = pick (o_pressure upd) (o_pressure base),
      o_extra = o_extra base ++ o_extra upd\<rparr>"

text \<open>\<open>exp_opts = self.options.copy(); exp_opts.update(upd)\<close>\<close>

definition update_options :: "option_set \<Rightarrow> option_dict \<Rightarrow> option_set" where
  "update_options base upd =
     \<lparr>opt_verbose = (case o_verbose upd of None \<Rightarrow> opt_verbose base | Some v \<Rightarrow> v),
      opt_mpi = (case o_mpi upd of None \<Rightarrow> opt_mpi base | Some v \<Rightarrow> v),
      opt_resume_setup = (case o_resume_setup upd of None \<Rightarrow> opt_resume_setup base | Some v \<Rightarrow> v),
      opt_resume_simulation =
        (case o_resume_simulation upd of None \<Rightarrow> opt_resume_simulation base | Some v \<Rightarrow> v),
      opt_output_dir = (case o_output_dir upd of None \<Rightarrow> opt_output_dir base | Some v \<Rightarrow> v),
      opt_temperature = (case o_temperature upd of None \<Rightarrow> opt_temperature base | Some v \<Rightarrow> v),
      opt_pressure = (case o_pressure upd of None \<Rightarrow> opt_pressure base | Some v \<Rightarrow> v),
      opt_extra = opt_extra base ++ o_extra upd\<rparr>"

text \<open>
  \<open>_isolate_yank_options\<close> drops the keys of \<open>DEFAULT_OPTIONS\<close>: the seven fields and
  the two default keys that live in the map.
\<close>

definition isolate_yank_options :: "option_set \<Rightarrow> (string \<rightharpoonup> yvalue)" where
  "isolate_yank_options opts = opt_extra opts |` (- {''constraints'', ''hydrogenMass''})"

text \<open>
  One expanded experiment (a combination): after \<open>_parse_experiments\<close> it has the key
  \<open>components\<close> with its three ids and may have the key \<open>options\<close>.
\<close>

record components =
  c_receptor :: string
  c_ligand :: string
  c_solvent :: string

record combination =
  exp_components :: components
  exp_options :: "option_dict option"

text \<open>
  \<open>self._raw_yaml\<close>: the deep copy of the three sections taken before parsing. The
  entries of its molecule and solvent tables are only copied, never read.
\<close>

type_synonym raw_entry = "(string \<times> yvalue) list"

record raw_yaml =
  raw_options :: option_dict
  raw_molecules :: "(string \<times> raw_entry) list"
  raw_solvents :: "(string \<times> raw_entry) list"

text \<open>What \<open>_generate_yaml\<close> dumps: the four sections of the regenerated document.\<close>

record snapshot =
  snap_options :: option_dict
  snap_molecules :: "(string \<times> raw_entry) list"
  snap_solvents :: "(string \<times> raw_entry) list"
  snap_experiment :: combination

text \<open>
  A molecule object of the OpenEye toolkit: what the toolkit built, and the positions of
  its atoms, which \<open>utils.set_oe_mol_positions\<close> overwrites.
\<close>

record oemol =
  oe_built_from :: string
  oe_positions :: positions

text \<open>The commands collected by a \<open>utils.TLeap\<close> object.\<close>

datatype tleap_cmd =
    NewSection string
  | LoadParameters string
  | LoadGroup string string
  | Combine string string string
  | AddCommands "string list"
  | Solvate string string real
  | SaveGroup string string

text \<open>
  Everything the builder does to the outside world is recorded, in order, as an event:
  directory creation, files it writes, and each call of an external collaborator.
\<close>

datatype event =
    Makedirs string
  | MpiBarrier
  | ConfigRootLogger bool string
  | YankInit string bool "string \<rightharpoonup> yvalue"
  | YankResume
  | YankCreate yvalue yvalue
  | YankRun
  | WriteYaml string snapshot
  | MoleculeToMol2 oemol string string
  | RunEpik string string int
  | RunAntechamber string string string
  | TleapExportScript "tleap_cmd list" string
  | TleapRun "tleap_cmd list"
  | PrepareAmber string string "string \<rightharpoonup> yvalue"

text \<open>
  The external collaborators whose results the builder uses. None of them is in
  \<open>yamlbuild.py\<close>, so each is a parameter:
  \<^item> \<open>validate_options\<close>: \<open>utils.validate_parameters\<close> against the options template;
    \<open>Inl\<close> carries the text of the \<open>TypeError\<close> or \<open>ValueError\<close> it raised;
  \<^item> \<open>is_openeye_installed\<close>: \<open>utils.is_openeye_installed()\<close>;
  \<^item> \<open>oe_import_error\<close>: the text of the \<open>ImportError\<close> that the molecule
    generators of \<open>openmoltools.openeye\<close> raise, if they do;
  \<^item> \<open>iupac_to_oemol\<close>, \<open>smiles_to_oemol\<close>, \<open>get_charges\<close>: those generators;
  \<^item> \<open>file_positions\<close>: \<open>utils.get_oe_mol_positions(utils.read_oe_molecule(path))\<close>;
  \<^item> \<open>random_draws\<close>: the random source of \<open>remove_overlap\<close>;
  \<^item> \<open>abspath\<close>: \<open>os.path.abspath\<close>;
  \<^item> \<open>get_mol2_resname\<close>: \<open>utils.get_mol2_resname\<close>.
\<close>

record env =
  validate_options :: "option_dict \<Rightarrow> string + option_dict"
  is_openeye_installed :: bool
  oe_import_error :: "string option"
  iupac_to_oemol :: "string \<Rightarrow> oemol"
  smiles_to_oemol :: "string \<Rightarrow> oemol"
  get_charges :: "oemol \<Rightarrow> oemol"
  file_positions :: "string \<Rightarrow> positions"
  random_draws :: "nat \<Rightarrow> matrix \<times> vec"
  abspath :: "string \<Rightarrow> string"
  get_mol2_resname :: "string \<Rightarrow> string option"

text \<open>
  The state: the attributes of the \<open>YamlBuilder\<close> object, the file system (which paths
  exist, as a directory or as a file; a path is the string the code passes to
  \<open>os\<close>), the events so far, and how many random draws were used.
\<close>

datatype node = Dir | File

record builder =
  options :: option_set
  molecules :: "string \<rightharpoonup> mol_descr"
  solvents :: "string \<rightharpoonup> solvent"
  experiments :: "(string \<times> (string \<times> combination) list) list"
  raw_yaml :: raw_yaml
  oe_molecules :: "string \<rightharpoonup> oemol"
  fixed_pos_cache :: "string \<rightharpoonup> positions"
  fs :: "string \<rightharpoonup> node"
  trace :: "event list"
  draws :: nat

definition emit :: "event \<Rightarrow> builder \<Rightarrow> builder" where
  "emit e s = s\<lparr>trace := trace s @ [e]\<rparr>"

text \<open>
  \<open>os.makedirs\<close>: fails if the path exists or if a proper ancestor is a file;
  otherwise the path and its missing ancestors become directories.
\<close>

definition ancestors :: "string \<Rightarrow> string list" where
  "ancestors p = map (\<lambda>i. take i p) (filter (\<lambda>i. 0 < i \<and> p ! i = CHR ''/'') [0..<length p])"

definition makedirs :: "string \<Rightarrow> builder \<Rightarrow> (error + unit) \<times> builder" where
  "makedirs p s =
     (if fs s p \<noteq> None \<or> list_ex (\<lambda>a. fs s a = Some File) (ancestors p)
      then (Inl (OSError p), s)
      else (Inr (), emit (Makedirs p)
              (s\<lparr>fs := foldl (\<lambda>f a. f(a \<mapsto> Dir)) (fs s) (ancestors p @ [p])\<rparr>)))"

section \<open>The pre-flight check\<close>









section \<open>The molecule stage\<close>

text \<open>
  The set comprehension \<open>file_mol_ids\<close> of \<open>_setup_molecules\<close>, in the order of
  \<open>args\<close>; looking up an unknown id raises \<open>KeyError\<close>.
\<close>

fun file_mol_ids_of :: "builder \<Rightarrow> string list \<Rightarrow> error + string list" where
  "file_mol_ids_of s [] = Inr []"
| "file_mol_ids_of s (mol_id # rest) =
     (case molecules s mol_id of
        None \<Rightarrow> Inl (KeyError mol_id)
      | Some mol_descr \<Rightarrow>
          (case file_mol_ids_of s rest of
             Inl e \<Rightarrow> Inl e
           | Inr ids \<Rightarrow>
               Inr (if mol_filepath mol_descr \<noteq> None \<and> oe_molecules s mol_id = None
                    then mol_id # ids else ids)))"

text \<open>
  \<open>_generate_molecule\<close>. With neither a name nor a SMILES string the local
  \<open>molecule\<close> is unbound when \<open>get_charges\<close> is called.
\<close>

definition generate_molecule :: "env \<Rightarrow> builder \<Rightarrow> string \<Rightarrow> error + oemol" where
  "generate_molecule env s molecule_id =
     (case molecules s molecule_id of
        None \<Rightarrow> Inl (KeyError molecule_id)
      | Some mol_descr \<Rightarrow>
          (case (case mol_name mol_descr of
                   Some n \<Rightarrow> Some (iupac_to_oemol env n)
                 | None \<Rightarrow>
                     (case mol_smiles mol_descr of
                        Some sm \<Rightarrow> Some (smiles_to_oemol env sm)
                      | None \<Rightarrow> None)) of
             None \<Rightarrow> Inl UnboundLocalError
           | Some molecule \<Rightarrow>
               (case oe_import_error env of
                  Some e \<Rightarrow>
                    Inl (YamlParseError
                      (''requested molecule generation from name or smiles but '' @
                       ''could not find OpenEye toolkit: '' @ e))
                | None \<Rightarrow> Inr (get_charges env molecule))))"

text \<open>
  The dictionary comprehension that generates the missing molecules: every id of
  \<open>args\<close> that is neither a file molecule nor generated already.
\<close>

fun generate_missing ::
  "env \<Rightarrow> builder \<Rightarrow> string list \<Rightarrow> string list \<Rightarrow> error + (string \<times> oemol) list" where
  "generate_missing env s file_mol_ids [] = Inr []"
| "generate_missing env s file_mol_ids (mol_id # rest) =
     (if mol_id \<notin> set file_mol_ids \<and> oe_molecules s mol_id = None
      then (case generate_molecule env s mol_id of
              Inl e \<Rightarrow> Inl e
            | Inr molecule \<Rightarrow>
                (case generate_missing env s file_mol_ids rest of
                   Inl e \<Rightarrow> Inl e
                 | Inr generated \<Rightarrow> Inr ((mol_id, molecule) # generated)))
      else generate_missing env s file_mol_ids rest)"

text \<open>\<open>d.update(items)\<close> for a map and a list of items.\<close>

definition map_update_all :: "('k \<rightharpoonup> 'v) \<Rightarrow> ('k \<times> 'v) list \<Rightarrow> ('k \<rightharpoonup> 'v)" where
  "map_update_all m items = foldl (\<lambda>m (k, v). m(k \<mapsto> v)) m items"

text \<open>The positions of one file molecule: from the cache, or read from its file.\<close>

definition fixed_position :: "env \<Rightarrow> builder \<Rightarrow> string \<Rightarrow> error + positions" where
  "fixed_position env s mol_id =
     (case fixed_pos_cache s mol_id of
        Some p \<Rightarrow> Inr p
      | None \<Rightarrow>
          (case molecules s mol_id of
             None \<Rightarrow> Inl (KeyError mol_id)
           | Some mol_descr \<Rightarrow>
               (case mol_filepath mol_descr of
                  None \<Rightarrow> Inl (KeyError ''filepath'')
                | Some path \<Rightarrow> Inr (file_positions env path))))"

fun read_fixed_positions :: "env \<Rightarrow> builder \<Rightarrow> string list \<Rightarrow> error + positions list" where
  "read_fixed_positions env s [] = Inr []"
| "read_fixed_positions env s (mol_id # rest) =
     (case fixed_position env s mol_id of
        Inl e \<Rightarrow> Inl e
      | Inr p \<Rightarrow>
          (case read_fixed_positions env s rest of
             Inl e \<Rightarrow> Inl e
           | Inr ps \<Rightarrow> Inr (p # ps)))"

text \<open>
  \<open>for i in range(len(positions) - 1)\<close>: each group against all later ones.
\<close>

fun check_fixed_overlap :: "positions list \<Rightarrow> error + unit" where
  "check_fixed_overlap [] = Inr ()"
| "check_fixed_overlap [posi] = Inr ()"
| "check_fixed_overlap (posi # pos1 # rest) =
     (case compute_min_dist posi (pos1 # rest) of
        Inl e \<Rightarrow> Inl e
      | Inr d \<Rightarrow>
          if flt d (Fin (1 / 10))
          then Inl (YamlParseError ''The given molecules have overlapping atoms!'')
          else check_fixed_overlap (pos1 # rest))"

text \<open>
  The block guarded by \<open>utils.is_openeye_installed()\<close>. It returns the dictionary
  \<open>fixed_pos\<close> as a list of items; \<open>list(file_mol_ids)\<close> is taken in the order of
  \<open>args\<close>.
\<close>

definition fixed_positions ::
  "env \<Rightarrow> builder \<Rightarrow> string list \<Rightarrow> (error + (string \<times> positions) list) \<times> builder" where
  "fixed_positions env s file_mol_ids =
     (if is_openeye_installed env
      then (case read_fixed_positions env s file_mol_ids of
              Inl e \<Rightarrow> (Inl e, s)
            | Inr positions \<Rightarrow>
                (case check_fixed_overlap positions of
                   Inl e \<Rightarrow> (Inl e, s)
                 | Inr _ \<Rightarrow>
                     (let fixed_pos = zip file_mol_ids positions
                      in (Inr fixed_pos,
                          s\<lparr>fixed_pos_cache := map_update_all (fixed_pos_cache s) fixed_pos\<rparr>))))
      else (Inr [], s))"

text \<open>\<open>d[k] = v\<close> on a dictionary kept as a list of items.\<close>

fun dict_set :: "'k \<Rightarrow> 'v \<Rightarrow> ('k \<times> 'v) list \<Rightarrow> ('k \<times> 'v) list" where
  "dict_set k v [] = [(k, v)]"
| "dict_set k v ((k', v') # rest) =
     (if k' = k then (k, v) # rest else (k', v') # dict_set k v rest)"

text \<open>
  \<open>remove_overlap\<close> called on arrays given by value: the candidate is put at address
  \<open>0\<close> of a store, the fixed groups at the addresses after it.
\<close>

definition remove_overlap_values ::
  "(nat \<Rightarrow> matrix \<times> vec) \<Rightarrow> positions \<Rightarrow> positions list \<Rightarrow> float64 \<Rightarrow> float64
     \<Rightarrow> (error + positions \<times> nat) option" where
  "remove_overlap_values rnd mol_positions groups sigma min_distance =
     (let h = \<lparr>cells = (\<lambda>a. if a = 0 then mol_positions
                            else if a \<le> length groups then groups ! (a - 1) else []),
               fresh = Suc (length groups)\<rparr>
      in case remove_overlap rnd h 0 [1..<Suc (length groups)] (Some sigma) (Some min_distance) of
           None \<Rightarrow> None
         | Some (Inl e) \<Rightarrow> Some (Inl e)
         | Some (Inr (h', x, k)) \<Rightarrow> Some (Inr (cells h' x, k)))"

text \<open>
  The loop that places the generated molecules. Its state is the dictionary
  \<open>fixed_pos\<close>, the id of the object bound to the local \<open>molecule\<close> (\<open>None\<close> while
  unbound) and the builder. \<open>None\<close> as a result is a \<open>remove_overlap\<close> that never
  returns.
\<close>

fun solve_overlaps ::
  "env \<Rightarrow> string list \<Rightarrow> (string \<times> positions) list \<Rightarrow> string option \<Rightarrow> builder
     \<Rightarrow> ((error + (string \<times> positions) list \<times> string option) \<times> builder) option" where
  "solve_overlaps env [] fixed_pos molecule s = Some (Inr (fixed_pos, molecule), s)"
| "solve_overlaps env (mol_id # rest) fixed_pos molecule s =
     (case oe_molecules s mol_id of
        None \<Rightarrow> solve_overlaps env rest fixed_pos molecule s
      | Some m \<Rightarrow>
          if fixed_pos \<noteq> []
          then (case remove_overlap_values (\<lambda>k. random_draws env (draws s + k))
                       (oe_positions m) (map snd fixed_pos) (Fin 1) (Fin 1) of
                  None \<Rightarrow> None
                | Some (Inl e) \<Rightarrow> Some (Inl e, s)
                | Some (Inr (molecule_pos, k)) \<Rightarrow>
                    solve_overlaps env rest (dict_set mol_id molecule_pos fixed_pos) (Some mol_id)
                      (s\<lparr>oe_molecules := (oe_molecules s)(mol_id \<mapsto> m\<lparr>oe_positions := molecule_pos\<rparr>),
                         draws := draws s + k\<rparr>))
          else solve_overlaps env rest (dict_set mol_id (oe_positions m) fixed_pos)
                 (Some mol_id) s)"

text \<open>\<open>re.sub('[^A-Za-z]+', '', mol_id.upper())\<close>\<close>

definition to_upper :: "char \<Rightarrow> char" where
  "to_upper c =
     (if of_char c \<ge> (97 :: nat) \<and> of_char c \<le> (122 :: nat)
      then char_of (of_char c - (32 :: nat)) else c)"

definition is_letter :: "char \<Rightarrow> bool" where
  "is_letter c \<longleftrightarrow>
     (of_char c \<ge> (65 :: nat) \<and> of_char c \<le> (90 :: nat)) \<or>
     (of_char c \<ge> (97 :: nat) \<and> of_char c \<le> (122 :: nat))"

definition residue_name_of :: "string \<Rightarrow> string" where
  "residue_name_of mol_id = filter is_letter (map to_upper mol_id)"

text \<open>
  One molecule of the loop that saves the parametrized molecules, from the creation of
  its directory on. \<open>mol_descr\<close> is updated in place, so each change goes back into
  \<open>molecules\<close>.
\<close>

definition write_generated ::
  "string option \<Rightarrow> string \<Rightarrow> string \<Rightarrow> mol_descr \<Rightarrow> builder \<Rightarrow> (error + mol_descr) \<times> builder" where
  "write_generated molecule mol_dir mol_id mol_descr s =
     (if oe_molecules s mol_id \<noteq> None
      then (let path = path_join mol_dir [mol_id @ ''.mol2''];
                mol_descr1 = mol_descr\<lparr>mol_filepath := Some path\<rparr>;
                s1 = s\<lparr>molecules := (molecules s)(mol_id \<mapsto> mol_descr1)\<rparr>
            in case (case molecule of None \<Rightarrow> None | Some bound \<Rightarrow> oe_molecules s bound) of
                 None \<Rightarrow> (Inl UnboundLocalError, s1)
               | Some obj \<Rightarrow>
                   (Inr mol_descr1, emit (MoleculeToMol2 obj path (residue_name_of mol_id)) s1))
      else (Inr mol_descr, s))"

definition run_epik_step ::
  "string \<Rightarrow> string \<Rightarrow> mol_descr \<Rightarrow> builder \<Rightarrow> (error + mol_descr) \<times> builder" where
  "run_epik_step mol_dir mol_id mol_descr s =
     (case mol_epik mol_descr of
        None \<Rightarrow> (Inr mol_descr, s)
      | Some epik_idx \<Rightarrow>
          (let epik_output_file = path_join mol_dir [mol_id @ ''-epik.mol2'']
           in case mol_filepath mol_descr of
                None \<Rightarrow> (Inl (KeyError ''filepath''), s)
              | Some path \<Rightarrow>
                  (let mol_descr1 = mol_descr\<lparr>mol_filepath := Some epik_output_file\<rparr>
                   in (Inr mol_descr1,
                       (emit (RunEpik path epik_output_file epik_idx) s)
                         \<lparr>molecules := (molecules s)(mol_id \<mapsto> mol_descr1)\<rparr>))))"

definition run_antechamber_step ::
  "env \<Rightarrow> string \<Rightarrow> string \<Rightarrow> mol_descr \<Rightarrow> builder \<Rightarrow> (error + unit) \<times> builder" where
  "run_antechamber_step env mol_dir mol_id mol_descr s =
     (case mol_parameters mol_descr of
        None \<Rightarrow> (Inl (KeyError ''parameters''), s)
      | Some parameters \<Rightarrow>
          if parameters = ''antechamber''
          then (case mol_filepath mol_descr of
                  None \<Rightarrow> (Inl (KeyError ''filepath''), s)
                | Some path \<Rightarrow>
                    (let input_mol_path = abspath env path;
                         mol_descr1 = mol_descr
                           \<lparr>mol_filepath := Some (path_join mol_dir [mol_id @ ''.gaff.mol2'']),
                            mol_parameters := Some (path_join mol_dir [mol_id @ ''.frcmod''])\<rparr>
                     in (Inr (),
                         (emit (RunAntechamber mol_dir mol_id input_mol_path) s)
                           \<lparr>molecules := (molecules s)(mol_id \<mapsto> mol_descr1)\<rparr>)))
          else (Inr (), s))"

definition process_molecule ::
  "env \<Rightarrow> string option \<Rightarrow> string \<Rightarrow> string \<Rightarrow> mol_descr \<Rightarrow> builder \<Rightarrow> (error + unit) \<times> builder" where
  "process_molecule env molecule mol_dir mol_id mol_descr s =
     (case write_generated molecule mol_dir mol_id mol_descr s of
        (Inl e, s1) \<Rightarrow> (Inl e, s1)
      | (Inr mol_descr1, s1) \<Rightarrow>
          (case run_epik_step mol_dir mol_id mol_descr1 s1 of
             (Inl e, s2) \<Rightarrow> (Inl e, s2)
           | (Inr mol_descr2, s2) \<Rightarrow> run_antechamber_step env mol_dir mol_id mol_descr2 s2))"

text \<open>
  The body of the loop that saves the parametrized molecules; \<open>continue\<close> ends it
  without an error. The first test decides whether the molecule is processed at all
  (\<open>or\<close> does not look at the parameters of a generated molecule); the second creates
  the directory, or skips a molecule that is not generated and whose directory exists.
\<close>

definition save_molecule ::
  "env \<Rightarrow> string \<Rightarrow> string option \<Rightarrow> string \<Rightarrow> builder \<Rightarrow> (error + unit) \<times> builder" where
  "save_molecule env output_dir molecule mol_id s =
     (case molecules s mol_id of
        None \<Rightarrow> (Inl (KeyError mol_id), s)
      | Some mol_descr \<Rightarrow>
          (case (if oe_molecules s mol_id \<noteq> None then Inr True
                 else (case mol_parameters mol_descr of
                         None \<Rightarrow> Inl (KeyError ''parameters'')
                       | Some parameters \<Rightarrow> Inr (parameters = ''antechamber''))) of
             Inl e \<Rightarrow> (Inl e, s)
           | Inr False \<Rightarrow> (Inr (), s)
           | Inr True \<Rightarrow>
               (let mol_dir = get_molecule_setup_dir output_dir mol_id
                in if fs s mol_dir = None
                   then (case makedirs mol_dir s of
                           (Inl e, s1) \<Rightarrow> (Inl e, s1)
                         | (Inr _, s1) \<Rightarrow>
                             process_molecule env molecule mol_dir mol_id mol_descr s1)
                   else if oe_molecules s mol_id = None then (Inr (), s)
                   else process_molecule env molecule mol_dir mol_id mol_descr s)))"

fun save_molecules ::
  "env \<Rightarrow> string \<Rightarrow> string option \<Rightarrow> string list \<Rightarrow> builder \<Rightarrow> (error + unit) \<times> builder" where
  "save_molecules env output_dir molecule [] s = (Inr (), s)"
| "save_molecules env output_dir molecule (mol_id # rest) s =
     (case save_molecule env output_dir molecule mol_id s of
        (Inl e, s1) \<Rightarrow> (Inl e, s1)
      | (Inr _, s1) \<Rightarrow> save_molecules env output_dir molecule rest s1)"

text \<open>\<open>_setup_molecules(output_dir, *args)\<close>\<close>

definition setup_molecules ::
  "env \<Rightarrow> string \<Rightarrow> string list \<Rightarrow> builder \<Rightarrow> ((error + unit) \<times> builder) option" where
  "setup_molecules env output_dir args s =
     (case file_mol_ids_of s args of
        Inl e \<Rightarrow> Some (Inl e, s)
      | Inr ids \<Rightarrow>
          (let file_mol_ids = remdups ids
           in case generate_missing env s file_mol_ids args of
                Inl e \<Rightarrow> Some (Inl e, s)
              | Inr generated \<Rightarrow>
                  (let s1 = s\<lparr>oe_molecules := map_update_all (oe_molecules s) generated\<rparr>
                   in case fixed_positions env s1 file_mol_ids of
                        (Inl e, s2) \<Rightarrow> Some (Inl e, s2)
                      | (Inr fixed_pos, s2) \<Rightarrow>
                          (case solve_overlaps env args fixed_pos None s2 of
                             None \<Rightarrow> None
                           | Some (Inl e, s3) \<Rightarrow> Some (Inl e, s3)
                           | Some (Inr (fixed_pos', molecule), s3) \<Rightarrow>
                               Some (save_molecules env output_dir molecule args s3)))))"

section \<open>The system stage\<close>

text \<open>
  The commands \<open>_setup_system\<close> gives to the \<open>TLeap\<close> object, in order. The
  descriptors are read after the molecule stage has updated them; a missing key raises
  \<open>KeyError\<close>, and \<open>or\<close> does not look at the ligand when the receptor already
  names a \<open>leaprc.\<close> file.
\<close>

definition load_group :: "string \<Rightarrow> mol_descr \<Rightarrow> error + tleap_cmd list" where
  "load_group group_name grp =
     (case mol_parameters grp of
        None \<Rightarrow> Inl (KeyError ''parameters'')
      | Some parameters \<Rightarrow>
          (case mol_filepath grp of
             None \<Rightarrow> Inl (KeyError ''filepath'')
           | Some path \<Rightarrow>
               Inr [NewSection (''Load '' @ group_name), LoadParameters parameters,
                    LoadGroup group_name path]))"

definition force_field_cmds :: "mol_descr \<Rightarrow> mol_descr \<Rightarrow> error + tleap_cmd list" where
  "force_field_cmds receptor ligand =
     (case mol_parameters receptor of
        None \<Rightarrow> Inl (KeyError ''parameters'')
      | Some rp \<Rightarrow>
          if contains ''leaprc.'' rp then Inr []
          else (case mol_parameters ligand of
                  None \<Rightarrow> Inl (KeyError ''parameters'')
                | Some lp \<Rightarrow>
                    if contains ''leaprc.'' lp then Inr []
                    else Inr [LoadParameters ''leaprc.ff14SB'']))"

definition solvent_cmds :: "solvent \<Rightarrow> error + tleap_cmd list" where
  "solvent_cmds solv =
     (case nonbondedMethod solv of
        None \<Rightarrow> Inl (KeyError ''nonbondedMethod'')
      | Some method \<Rightarrow>
          if method = ''NoCutoff''
          then (if implicitSolvent solv \<noteq> None
                then Inr [NewSection ''Set GB radii to recommended values for OBC'',
                          AddCommands [''set default PBRadii mbondi2'']]
                else Inr [])
          else (case clearance solv of
                  None \<Rightarrow> Inl (KeyError ''clearance'')
                | Some c \<Rightarrow>
                    Inr [NewSection ''Solvate systems'',
                         Solvate ''complex'' ''TIP3PBOX'' c,
                         Solvate ''ligand'' ''TIP3PBOX'' c]))"

definition tleap_script ::
  "string \<Rightarrow> mol_descr \<Rightarrow> mol_descr \<Rightarrow> solvent \<Rightarrow> error + tleap_cmd list" where
  "tleap_script system_dir receptor ligand solv =
     (case force_field_cmds receptor ligand of
        Inl e \<Rightarrow> Inl e
      | Inr ff \<Rightarrow>
     (case load_group ''receptor'' receptor of
        Inl e \<Rightarrow> Inl e
      | Inr load_receptor \<Rightarrow>
     (case load_group ''ligand'' ligand of
        Inl e \<Rightarrow> Inl e
      | Inr load_ligand \<Rightarrow>
     (case solvent_cmds solv of
        Inl e \<Rightarrow> Inl e
      | Inr solvate \<Rightarrow>
          Inr ([NewSection ''Load GAFF parameters'', LoadParameters ''leaprc.gaff''] @ ff @
               load_receptor @ load_ligand @
               [NewSection ''Create complex'', Combine ''complex'' ''receptor'' ''ligand''] @
               solvate @
               [NewSection ''Check charge'',
                AddCommands [''check complex'', ''charge complex''],
                NewSection ''Save prmtop and inpcrd files'',
                SaveGroup ''complex'' (path_join system_dir [''complex.prmtop'']),
                SaveGroup ''complex'' (path_join system_dir [''complex.pdb'']),
                SaveGroup ''ligand'' (path_join system_dir [''solvent.prmtop'']),
                SaveGroup ''ligand'' (path_join system_dir [''solvent.pdb''])])))))"

text \<open>
  The part of \<open>_setup_system\<close> after \<open>_setup_molecules\<close>: build the script, export
  it and run \<open>tleap\<close>.
\<close>

definition run_tleap ::
  "string \<Rightarrow> components \<Rightarrow> solvent \<Rightarrow> builder \<Rightarrow> (error + string) \<times> builder" where
  "run_tleap system_dir comps solv s =
     (case molecules s (c_receptor comps) of
        None \<Rightarrow> (Inl (KeyError (c_receptor comps)), s)
      | Some receptor \<Rightarrow>
     (case molecules s (c_ligand comps) of
        None \<Rightarrow> (Inl (KeyError (c_ligand comps)), s)
      | Some ligand \<Rightarrow>
     (case tleap_script system_dir receptor ligand solv of
        Inl e \<Rightarrow> (Inl e, s)
      | Inr script \<Rightarrow>
          (Inr system_dir,
           emit (TleapRun script)
             (emit (TleapExportScript script (path_join system_dir [''leap.in''])) s)))))"

text \<open>\<open>_setup_system(output_dir, components)\<close>\<close>

definition setup_system ::
  "env \<Rightarrow> string \<Rightarrow> components \<Rightarrow> builder \<Rightarrow> ((error + string) \<times> builder) option" where
  "setup_system env output_dir comps s =
     (let receptor_id = c_receptor comps;
          ligand_id = c_ligand comps;
          solvent_id = c_solvent comps
      in case molecules s receptor_id of
           None \<Rightarrow> Some (Inl (KeyError receptor_id), s)
         | Some receptor \<Rightarrow>
        (case molecules s ligand_id of
           None \<Rightarrow> Some (Inl (KeyError ligand_id), s)
         | Some ligand \<Rightarrow>
        (case solvents s solvent_id of
           None \<Rightarrow> Some (Inl (KeyError solvent_id), s)
         | Some solv \<Rightarrow>
             (let system_dir = get_system_setup_dir output_dir receptor_id ligand_id solvent_id
              in if fs s system_dir \<noteq> None then Some (Inr system_dir, s)
                 else (case makedirs system_dir s of
                         (Inl e, s1) \<Rightarrow> Some (Inl e, s1)
                       | (Inr _, s1) \<Rightarrow>
                           (case setup_molecules env output_dir [receptor_id, ligand_id] s1 of
                              None \<Rightarrow> None
                            | Some (Inl e, s2) \<Rightarrow> Some (Inl e, s2)
                            | Some (Inr _, s2) \<Rightarrow> Some (run_tleap system_dir comps solv s2)))))))"

section \<open>The experiment stage\<close>

text \<open>
  \<open>_generate_yaml(experiment, output_dir, file_name)\<close>. The document is kept by
  sections instead of as text. \<open>open\<close> fails when the directory is missing or the
  path is a directory.
\<close>

definition component_ids :: "combination \<Rightarrow> string set" where
  "component_ids experiment =
     {c_receptor (exp_components experiment), c_ligand (exp_components experiment),
      c_solvent (exp_components experiment)}"

definition yaml_sections :: "builder \<Rightarrow> combination \<Rightarrow> snapshot" where
  "yaml_sections s experiment =
     (let comps = component_ids experiment;
          mol_section = filter (\<lambda>(mol_id, molecule). mol_id \<in> comps) (raw_molecules (raw_yaml s));
          sol_section = filter (\<lambda>(solvent_id, solv). solvent_id \<in> comps) (raw_solvents (raw_yaml s));
          exp_section = experiment\<lparr>exp_options := None\<rparr>;
          opt_section = update_dict (raw_options (raw_yaml s))
            (case exp_options experiment of None \<Rightarrow> empty_dict | Some opts \<Rightarrow> opts)
      in \<lparr>snap_options = opt_section, snap_molecules = mol_section,
          snap_solvents = sol_section, snap_experiment = exp_section\<rparr>)"

definition generate_yaml ::
  "combination \<Rightarrow> string \<Rightarrow> string \<Rightarrow> builder \<Rightarrow> (error + unit) \<times> builder" where
  "generate_yaml experiment output_dir file_name s =
     (let path = path_join output_dir [file_name]
      in if fs s output_dir \<noteq> Some Dir \<or> fs s path = Some Dir
         then (Inl (IOError path), s)
         else (Inr (), emit (WriteYaml path (yaml_sections s experiment))
                         (s\<lparr>fs := (fs s)(path \<mapsto> File)\<rparr>)))"

text \<open>
  The parameters handed to \<open>pipeline.prepare_amber\<close>: the entries of the solvent
  named in \<open>create_system_filter\<close>, overwritten by those of the options.
\<close>

definition create_system_filter :: "string set" where
  "create_system_filter =
     {''nonbondedMethod'', ''nonbondedCutoff'', ''implicitSolvent'', ''constraints'',
      ''hydrogenMass''}"

definition solvent_items :: "solvent \<Rightarrow> (string \<rightharpoonup> yvalue)" where
  "solvent_items solv =
     (\<lambda>k. if k = ''nonbondedMethod'' then map_option VApp (nonbondedMethod solv)
          else if k = ''nonbondedCutoff''
          then map_option (\<lambda>c. VQuantity c ''angstrom'') (nonbondedCutoff solv)
          else if k = ''implicitSolvent'' then map_option VApp (implicitSolvent solv)
          else if k = ''clearance''
          then map_option (\<lambda>c. VQuantity c ''angstrom'') (clearance solv)
          else None)"

definition system_parameters :: "solvent \<Rightarrow> option_set \<Rightarrow> (string \<rightharpoonup> yvalue)" where
  "system_parameters solv exp_opts =
     (solvent_items solv |` create_system_filter) ++ (opt_extra exp_opts |` create_system_filter)"

text \<open>
  The branch of \<open>_run_experiment\<close> that builds a new run: from the export of the
  YAML file to \<open>yank.create\<close>.
\<close>

definition create_experiment ::
  "env \<Rightarrow> combination \<Rightarrow> option_set \<Rightarrow> string \<Rightarrow> string \<Rightarrow> builder
     \<Rightarrow> ((error + unit) \<times> builder) option" where
  "create_experiment env experiment exp_opts results_dir exp_name s =
     (let comps = exp_components experiment
      in case generate_yaml experiment results_dir (exp_name @ ''.yaml'') s of
           (Inl e, s1) \<Rightarrow> Some (Inl e, s1)
         | (Inr _, s1) \<Rightarrow>
        (case setup_system env (opt_output_dir exp_opts) comps s1 of
           None \<Rightarrow> None
         | Some (Inl e, s2) \<Rightarrow> Some (Inl e, s2)
         | Some (Inr system_dir, s2) \<Rightarrow>
        (case molecules s2 (c_ligand comps) of
           None \<Rightarrow> Some (Inl (KeyError (c_ligand comps)), s2)
         | Some ligand \<Rightarrow>
        (case mol_filepath ligand of
           None \<Rightarrow> Some (Inl (KeyError ''filepath''), s2)
         | Some path \<Rightarrow>
        (case solvents s2 (c_solvent comps) of
           None \<Rightarrow> Some (Inl (KeyError (c_solvent comps)), s2)
         | Some solv \<Rightarrow>
             (let ligand_dsl = ''resname '' @
                    (case get_mol2_resname env path of None \<Rightarrow> ''MOL'' | Some r \<Rightarrow> r);
                  system_pars = system_parameters solv exp_opts
              in Some (Inr (),
                   emit (YankCreate (opt_temperature exp_opts) (opt_pressure exp_opts))
                     (emit (PrepareAmber system_dir ligand_dsl system_pars) s2))))))))"

text \<open>
  The head of \<open>_run_experiment\<close>: the name of the experiment, and its options, which
  are the global ones updated with the validated options of the experiment.
\<close>

definition experiment_name :: "string \<Rightarrow> string" where
  "experiment_name experiment_dir =
     (if experiment_dir = [] then ''experiment'' else basename experiment_dir)"

definition experiment_options :: "env \<Rightarrow> builder \<Rightarrow> combination \<Rightarrow> error + option_set" where
  "experiment_options env s experiment =
     (case validate_options env
             (case exp_options experiment of None \<Rightarrow> empty_dict | Some opts \<Rightarrow> opts) of
        Inl msg \<Rightarrow> Inl (YamlParseError msg)
      | Inr valid \<Rightarrow> Inr (update_options (options s) valid))"

text \<open>\<open>_run_experiment(experiment, experiment_dir)\<close>\<close>

definition run_experiment ::
  "env \<Rightarrow> combination \<Rightarrow> string \<Rightarrow> builder \<Rightarrow> ((error + unit) \<times> builder) option" where
  "run_experiment env experiment experiment_dir s =
     (let exp_name = experiment_name experiment_dir
      in case experiment_options env s experiment of
           Inl e \<Rightarrow> Some (Inl e, s)
         | Inr exp_opts \<Rightarrow>
             (let yank_opts = isolate_yank_options exp_opts;
                  s1 = (if opt_mpi exp_opts then emit MpiBarrier s else s);
                  results_dir = get_experiment_dir (opt_output_dir exp_opts) experiment_dir
              in case (if fs s1 results_dir \<noteq> Some Dir
                       then (case makedirs results_dir s1 of
                               (Inl e, s2) \<Rightarrow> (Inl e, s2)
                             | (Inr _, s2) \<Rightarrow> (Inr False, s2))
                       else (Inr True, s1)) of
                   (Inl e, s2) \<Rightarrow> Some (Inl e, s2)
                 | (Inr resume, s2) \<Rightarrow>
                     (let s3 = emit (YankInit results_dir (opt_mpi exp_opts) yank_opts)
                                (emit (ConfigRootLogger (opt_verbose exp_opts)
                                         (path_join results_dir [exp_name @ ''.log''])) s2)
                      in if resume then Some (Inr (), emit YankRun (emit YankResume s3))
                         else (case create_experiment env experiment exp_opts results_dir exp_name s3 of
                                 None \<Rightarrow> None
                               | Some (Inl e, s4) \<Rightarrow> Some (Inl e, s4)
                               | Some (Inr _, s4) \<Rightarrow> Some (Inr (), emit YankRun s4)))))"



text \<open>
  An option dictionary read as a mapping from keys to values: the seven fields under
  their keys, every other key from the map.
\<close>

definition dict_get :: "option_dict \<Rightarrow> string \<Rightarrow> yvalue option" where
  "dict_get d k =
     (if k = ''verbose'' then map_option VBool (o_verbose d)
      else if k = ''mpi'' then map_option VBool (o_mpi d)
      else if k = ''resume_setup'' then map_option VBool (o_resume_setup d)
      else if k = ''resume_simulation'' then map_option VBool (o_resume_simulation d)
      else if k = ''output_dir'' then map_option VStr (o_output_dir d)
      else if k = ''temperature'' then o_temperature d
      else if k = ''pressure'' then o_pressure d
      else o_extra d k)"

section \<open>The pre-flight conflicts as the specification words them\<close>





section \<open>Fixed-position molecules as the specification words them\<close>




fun is_finite :: "float64 \<Rightarrow> bool" where
  "is_finite (Fin a) = True"
| "is_finite PInf = False"
| "is_finite NInf = False"
| "is_finite NaN = False"

fun finite_vec :: "vec \<Rightarrow> bool" where
  "finite_vec (a, b, c) \<longleftrightarrow> is_finite a \<and> is_finite b \<and> is_finite c"

definition finite_positions :: "positions \<Rightarrow> bool" where
  "finite_positions x \<longleftrightarrow> list_all finite_vec x"

section \<open>Concrete inputs\<close>

text \<open>Inputs at which the theorems below are instantiated.\<close>

definition rnd0 :: "nat \<Rightarrow> matrix \<times> vec" where
  "rnd0 k = (((Fin 1, Fin 0, Fin 0), (Fin 0, Fin 1, Fin 0), (Fin 0, Fin 0, Fin 1)),
             (Fin 3, Fin 0, Fin 0))"

definition heap0 :: heap where
  "heap0 = \<lparr>cells = (\<lambda>_. [])(0 := [(Fin 0, Fin 0, Fin 0)], 1 := [(Fin 0, Fin 0, Fin 0)]),
            fresh = 2\<rparr>"

text \<open>
  A store whose candidate has a NaN coordinate, with the store after the copy made by
  \<open>remove_overlap\<close>; and a store whose candidate is three units away from the fixed
  group.
\<close>

definition heap_nan :: heap where
  "heap_nan = \<lparr>cells = (\<lambda>_. [])(0 := [(NaN, Fin 0, Fin 0)], 1 := [(Fin 0, Fin 0, Fin 0)]),
               fresh = 2\<rparr>"

definition heap_nan_copy :: heap where
  "heap_nan_copy = heap_nan\<lparr>cells := (cells heap_nan)(2 := [(NaN, Fin 0, Fin 0)]), fresh := 3\<rparr>"

definition heap_clear :: heap where
  "heap_clear = \<lparr>cells = (\<lambda>_. [])(0 := [(Fin 3, Fin 0, Fin 0)], 1 := [(Fin 0, Fin 0, Fin 0)]),
                 fresh = 2\<rparr>"

definition mol_file_ok :: mol_descr where
  "mol_file_ok = \<lparr>mol_filepath = Some ''rec.pdb'', mol_name = None, mol_smiles = None,
     mol_parameters = Some ''leaprc.ff14SB'', mol_epik = None\<rparr>"

definition mol_two_sources :: mol_descr where
  "mol_two_sources = \<lparr>mol_filepath = Some ''lig.mol2'', mol_name = Some ''toluene'',
     mol_smiles = None, mol_parameters = Some ''antechamber'', mol_epik = None\<rparr>"

definition solvent_pme :: solvent where
  "solvent_pme = \<lparr>nonbondedMethod = Some ''PME'', nonbondedCutoff = Some 9,
     implicitSolvent = None, clearance = Some 10\<rparr>"

definition solvent_bad :: solvent where
  "solvent_bad = \<lparr>nonbondedMethod = Some ''NoCutoff'', nonbondedCutoff = Some 9,
     implicitSolvent = None, clearance = None\<rparr>"


text \<open>
  An environment in which every collaborator succeeds, and a configuration with one
  receptor read from a file, one ligand generated from its name, one solvent and one
  experiment.
\<close>

definition env0 :: env where
  "env0 = \<lparr>validate_options = Inr,
     is_openeye_installed = True,
     oe_import_error = None,
     iupac_to_oemol = (\<lambda>n. \<lparr>oe_built_from = n,
        oe_positions = (if n = ''toluene'' then [(Fin 3, Fin 0, Fin 0)]
                        else [(Fin 0, Fin 0, Fin 0)])\<rparr>),
     smiles_to_oemol = (\<lambda>n. \<lparr>oe_built_from = n, oe_positions = [(Fin 0, Fin 3, Fin 0)]\<rparr>),
     get_charges = (\<lambda>m. m),
     file_positions = (\<lambda>p. [(Fin 0, Fin 0, Fin 0)]),
     random_draws = rnd0,
     abspath = (\<lambda>p. ''/cwd/'' @ p),
     get_mol2_resname = (\<lambda>p. None)\<rparr>"

definition mol_by_name :: mol_descr where
  "mol_by_name = \<lparr>mol_filepath = None, mol_name = Some ''toluene'', mol_smiles = None,
     mol_parameters = Some ''antechamber'', mol_epik = None\<rparr>"

definition mol_by_name2 :: mol_descr where
  "mol_by_name2 = \<lparr>mol_filepath = None, mol_name = Some ''benzene'', mol_smiles = None,
     mol_parameters = Some ''antechamber'', mol_epik = None\<rparr>"

definition mol_file2 :: mol_descr where
  "mol_file2 = \<lparr>mol_filepath = Some ''lig.mol2'', mol_name = None, mol_smiles = None,
     mol_parameters = Some ''leaprc.gaff'', mol_epik = None\<rparr>"

definition options0 :: option_set where
  "options0 = \<lparr>opt_verbose = False, opt_mpi = False, opt_resume_setup = False,
     opt_resume_simulation = False, opt_output_dir = ''out'',
     opt_temperature = VQuantity 298 ''kelvin'', opt_pressure = VQuantity 1 ''atmosphere'',
     opt_extra = [''constraints'' \<mapsto> VApp ''HBonds'']\<rparr>"

definition exp0 :: combination where
  "exp0 = \<lparr>exp_components = \<lparr>c_receptor = ''rec'', c_ligand = ''lig'', c_solvent = ''pme''\<rparr>,
     exp_options = None\<rparr>"

definition exp1 :: combination where
  "exp1 = \<lparr>exp_components = \<lparr>c_receptor = ''rec'', c_ligand = ''lig'', c_solvent = ''pme''\<rparr>,
     exp_options = Some (empty_dict\<lparr>o_verbose := Some True\<rparr>)\<rparr>"

definition raw0 :: raw_yaml where
  "raw0 = \<lparr>raw_options = empty_dict\<lparr>o_output_dir := Some ''out''\<rparr>,
     raw_molecules = [(''rec'', [(''filepath'', VStr ''rec.pdb'')]),
                      (''lig'', [(''name'', VStr ''toluene'')]),
                      (''other'', [(''smiles'', VStr ''C'')])],
     raw_solvents = [(''pme'', [(''nonbondedMethod'', VStr ''PME'')])]\<rparr>"

definition builder0 :: builder where
  "builder0 = \<lparr>options = options0,
     molecules = [''rec'' \<mapsto> mol_file_ok, ''lig'' \<mapsto> mol_by_name],
     solvents = [''pme'' \<mapsto> solvent_pme],
     experiments = [(''experiment'', [([], exp0)])],
     raw_yaml = raw0,
     oe_molecules = Map.empty,
     fixed_pos_cache = Map.empty,
     fs = Map.empty,
     trace = [],
     draws = 0\<rparr>"

text \<open>
  Two states of the file system: the directory of the experiment exists; and only the
  directory of the system exists, with both molecules read from files.
\<close>

definition builder_resume :: builder where
  "builder_resume = builder0\<lparr>fs := [''out/experiments/'' \<mapsto> Dir]\<rparr>"

definition builder_create :: builder where
  "builder_create = builder0
     \<lparr>molecules := [''rec'' \<mapsto> mol_file_ok, ''lig'' \<mapsto> mol_file2],
      fs := [''out/setup/systems/rec_lig_pme'' \<mapsto> Dir]\<rparr>"


definition builder_generated :: builder where
  "builder_generated = builder0
     \<lparr>molecules := [''rec'' \<mapsto> mol_by_name2, ''lig'' \<mapsto> mol_by_name]\<rparr>"


section \<open>Floating-point comparisons\<close>

lemma fle_trans: "fle a b \<Longrightarrow> fle b c \<Longrightarrow> fle a c"
  by (cases a; cases b; cases c) auto


lemma flt_not_fle: "flt a b \<Longrightarrow> \<not> fle b a"
  by (cases a; cases b) auto

lemma not_fle_iff: "\<not> fle a b \<longleftrightarrow> a = NaN \<or> b = NaN \<or> flt b a"
  by (cases a; cases b) auto

lemma fle_refl: "a \<noteq> NaN \<Longrightarrow> fle a a"
  by (cases a) auto

lemma py_min_cases: "py_min a b = a \<or> py_min a b = b"
  by (simp add: py_min_def)

lemma py_min_le:
  "a \<noteq> NaN \<Longrightarrow> b \<noteq> NaN \<Longrightarrow> fle (py_min a b) a \<and> fle (py_min a b) b"
  by (cases a; cases b) (auto simp: py_min_def)

lemma is_finite_iff: "is_finite a \<longleftrightarrow> (\<exists>r. a = Fin r)"
  by (cases a) auto



lemma dist2_finite:
  assumes "finite_vec p" "finite_vec q"
  shows "\<exists>r. 0 \<le> r \<and> dist2 p q = Fin r"
proof -
  obtain a b c x y z where p: "p = (Fin a, Fin b, Fin c)" and q: "q = (Fin x, Fin y, Fin z)"
    using assms by (cases p; cases q) (auto simp: is_finite_iff)
  have "dist2 p q = Fin ((a - x) * (a - x) + (b - y) * (b - y) + (c - z) * (c - z))"
    by (simp add: p q fsquare_def fsub_def)
  moreover have "0 \<le> (a - x) * (a - x) + (b - y) * (b - y) + (c - z) * (c - z)"
    by simp
  ultimately show ?thesis by blast
qed

lemma fsqrt_mono:
  "0 \<le> a \<Longrightarrow> fle (Fin a) y \<Longrightarrow> fle (fsqrt (Fin a)) (fsqrt y)"
  by (cases y) auto

section \<open>Geometry: properties\<close>

lemma argmin_less: "xs \<noteq> [] \<Longrightarrow> argmin xs < length xs"
  by (induction xs rule: argmin.induct) (auto simp: Let_def)

lemma argmin_mem: "xs \<noteq> [] \<Longrightarrow> xs ! argmin xs \<in> set xs"
  using argmin_less nth_mem by blast

lemma argmin_le: "NaN \<notin> set xs \<Longrightarrow> y \<in> set xs \<Longrightarrow> fle (xs ! argmin xs) y"
proof (induction xs arbitrary: y rule: argmin.induct)
  case 1 then show ?case by simp
next
  case (2 x) then show ?case by (simp add: fle_refl)
next
  case (3 x z zs)
  let ?m = "(z # zs) ! argmin (z # zs)"
  have "?m \<in> set (z # zs)" by (rule argmin_mem) simp
  with 3(2) have m: "?m \<noteq> NaN" by auto
  from 3(2) have x: "x \<noteq> NaN" by auto
  from 3(2) have rest: "NaN \<notin> set (z # zs)" by simp
  show ?case
  proof (cases "fle x ?m")
    case True
    then have a: "(x # z # zs) ! argmin (x # z # zs) = x" by (simp add: Let_def)
    from 3(3) consider "y = x" | "y \<in> set (z # zs)" by auto
    then show ?thesis
    proof cases
      case 1 with a x show ?thesis by (simp add: fle_refl)
    next
      case 2
      from 3(1) [OF rest 2] have "fle ?m y" .
      with True have "fle x y" by (rule fle_trans)
      with a show ?thesis by simp
    qed
  next
    case False
    with x have a: "(x # z # zs) ! argmin (x # z # zs) = ?m" by (simp add: Let_def)
    from 3(3) consider "y = x" | "y \<in> set (z # zs)" by auto
    then show ?thesis
    proof cases
      case 1
      from False x m have "fle ?m x" by (cases x; cases ?m) auto
      with a 1 show ?thesis by simp
    next
      case 2
      from 3(1) [OF rest 2] a show ?thesis by simp
    qed
  qed
qed

lemma flat_distances_D:
  "v \<in> set (concat (distances2 mp p1)) \<Longrightarrow> \<exists>p\<in>set mp. \<exists>q\<in>set p1. v = dist2 q p"
  by (auto simp: distances2_def simp del: dist2.simps)

lemma flat_distances_I:
  "p \<in> set mp \<Longrightarrow> q \<in> set p1 \<Longrightarrow> dist2 q p \<in> set (concat (distances2 mp p1))"
  by (auto simp: distances2_def simp del: dist2.simps)

lemma group_min_dist_Inr:
  assumes "group_min_dist mp p1 = Inr d"
  shows "mp \<noteq> [] \<and> p1 \<noteq> [] \<and> (\<exists>p\<in>set mp. \<exists>q\<in>set p1. d = fsqrt (dist2 q p))"
proof -
  let ?flat = "concat (distances2 mp p1)"
  from assms have ne: "?flat \<noteq> []" and d: "d = fsqrt (?flat ! argmin ?flat)"
    by (auto simp: group_min_dist_def Let_def split: if_splits)
  from ne have "?flat ! argmin ?flat \<in> set ?flat" by (rule argmin_mem)
  then have "\<exists>p\<in>set mp. \<exists>q\<in>set p1. ?flat ! argmin ?flat = dist2 q p" by (rule flat_distances_D)
  with d have ex: "\<exists>p\<in>set mp. \<exists>q\<in>set p1. d = fsqrt (dist2 q p)" by metis
  moreover from ne have "mp \<noteq> [] \<and> p1 \<noteq> []" by (auto simp: distances2_def)
  ultimately show ?thesis by blast
qed

lemma finite_positions_D: "finite_positions x \<Longrightarrow> p \<in> set x \<Longrightarrow> finite_vec p"
  by (simp add: finite_positions_def list_all_iff)

lemma group_min_dist_finite:
  assumes g: "group_min_dist mp p1 = Inr d"
    and fin: "finite_positions mp" "finite_positions p1"
  shows "d \<noteq> NaN \<and> (\<forall>p\<in>set mp. \<forall>q\<in>set p1. fle d (fsqrt (dist2 q p)))"
proof -
  let ?flat = "concat (distances2 mp p1)"
  from g have ne: "?flat \<noteq> []" and d: "d = fsqrt (?flat ! argmin ?flat)"
    by (auto simp: group_min_dist_def Let_def split: if_splits)
  have vals: "\<exists>r. 0 \<le> r \<and> v = Fin r" if "v \<in> set ?flat" for v
  proof -
    from flat_distances_D [OF that] obtain p q where
      "p \<in> set mp" "q \<in> set p1" "v = dist2 q p" by blast
    with fin dist2_finite [of q p] show ?thesis by (auto dest: finite_positions_D)
  qed
  then have nonan: "NaN \<notin> set ?flat" by blast
  from ne have "?flat ! argmin ?flat \<in> set ?flat" by (rule argmin_mem)
  from vals [OF this] obtain r where r: "0 \<le> r" "?flat ! argmin ?flat = Fin r" by blast
  with d have d': "d = Fin (sqrt r)" by simp
  have "fle d (fsqrt (dist2 q p))" if "p \<in> set mp" "q \<in> set p1" for p q
  proof -
    from that have "dist2 q p \<in> set ?flat" by (rule flat_distances_I)
    from argmin_le [OF nonan this] r have "fle (Fin r) (dist2 q p)" by simp
    from fsqrt_mono [OF r(1) this] d r show ?thesis by simp
  qed
  with d' show ?thesis by simp
qed

lemma group_min_dist_Inl: "group_min_dist mp p1 = Inl e \<Longrightarrow> e = ValueError \<and> (mp = [] \<or> p1 = [])"
  by (cases mp) (auto simp: group_min_dist_def Let_def distances2_def split: if_splits)


lemma compute_min_dist_loop_attained:
  "compute_min_dist_loop acc mp args = Inr r \<Longrightarrow>
     (args \<noteq> [] \<or> acc \<noteq> None \<longrightarrow> r \<noteq> None) \<and>
     (\<forall>d. r = Some d \<longrightarrow>
        acc = Some d \<or> (\<exists>g\<in>set args. \<exists>p\<in>set mp. \<exists>q\<in>set g. d = fsqrt (dist2 q p)))"
proof (induction args arbitrary: acc)
  case Nil
  then show ?case by simp
next
  case (Cons pos1 rest)
  from Cons.prems obtain d1 where g: "group_min_dist mp pos1 = Inr d1"
    by (auto split: sum.splits)
  let ?acc = "case acc of None \<Rightarrow> Some d1 | Some m \<Rightarrow> Some (py_min m d1)"
  from Cons.prems g have run: "compute_min_dist_loop ?acc mp rest = Inr r" by simp
  note IH = Cons.IH [OF run]
  note G = group_min_dist_Inr [OF g]
  have nn: "r \<noteq> None" using IH by (auto split: option.splits)
  have body: "acc = Some d \<or> (\<exists>g\<in>set (pos1 # rest). \<exists>p\<in>set mp. \<exists>q\<in>set g. d = fsqrt (dist2 q p))"
    if r: "r = Some d" for d
  proof (cases "?acc = Some d")
    case True
    then have "acc = Some d \<or> d = d1"
      using py_min_cases [of _ d1] by (cases acc) (auto simp: eq_commute)
    with G show ?thesis by auto
  next
    case False
    with IH r show ?thesis by auto
  qed
  from nn body show ?case by blast
qed

lemma compute_min_dist_loop_finite:
  "compute_min_dist_loop acc mp args = Inr (Some d) \<Longrightarrow>
   finite_positions mp \<Longrightarrow> \<forall>g\<in>set args. finite_positions g \<Longrightarrow>
   \<forall>m. acc = Some m \<longrightarrow> m \<noteq> NaN \<Longrightarrow>
     d \<noteq> NaN \<and> (\<forall>m. acc = Some m \<longrightarrow> fle d m) \<and>
     (\<forall>g\<in>set args. \<forall>p\<in>set mp. \<forall>q\<in>set g. fle d (fsqrt (dist2 q p)))"
proof (induction args arbitrary: acc)
  case Nil
  then show ?case by (auto simp: fle_refl)
next
  case (Cons pos1 rest)
  from Cons.prems(1) obtain d1 where g: "group_min_dist mp pos1 = Inr d1"
    by (auto split: sum.splits)
  let ?acc = "case acc of None \<Rightarrow> Some d1 | Some m \<Rightarrow> Some (py_min m d1)"
  from Cons.prems(1) g have run: "compute_min_dist_loop ?acc mp rest = Inr (Some d)" by simp
  from Cons.prems(3) have f1: "finite_positions pos1" and fr: "\<forall>g\<in>set rest. finite_positions g"
    by simp_all
  from group_min_dist_finite [OF g Cons.prems(2) f1]
  have d1: "d1 \<noteq> NaN" and G: "\<forall>p\<in>set mp. \<forall>q\<in>set pos1. fle d1 (fsqrt (dist2 q p))"
    by simp_all
  have accn: "\<forall>m. ?acc = Some m \<longrightarrow> m \<noteq> NaN"
  proof (cases acc)
    case None with d1 show ?thesis by simp
  next
    case (Some a)
    with Cons.prems(4) have "a \<noteq> NaN" by simp
    with d1 py_min_cases [of a d1] Some show ?thesis by auto
  qed
  from Cons.IH [OF run Cons.prems(2) fr accn]
  have dn: "d \<noteq> NaN" and le_acc: "\<forall>m. ?acc = Some m \<longrightarrow> fle d m"
    and rest: "\<forall>g\<in>set rest. \<forall>p\<in>set mp. \<forall>q\<in>set g. fle d (fsqrt (dist2 q p))"
    by simp_all
  have d_le: "fle d d1"
  proof (cases acc)
    case None with le_acc show ?thesis by simp
  next
    case (Some m)
    with le_acc have "fle d (py_min m d1)" by simp
    moreover from Some Cons.prems(4) d1 have "fle (py_min m d1) d1" by (simp add: py_min_le)
    ultimately show ?thesis by (rule fle_trans)
  qed
  have a_le: "\<forall>m. acc = Some m \<longrightarrow> fle d m"
  proof (intro allI impI)
    fix m assume m: "acc = Some m"
    with le_acc have "fle d (py_min m d1)" by simp
    moreover from m Cons.prems(4) d1 have "fle (py_min m d1) m" by (simp add: py_min_le)
    ultimately show "fle d m" by (rule fle_trans)
  qed
  from d_le G have first: "\<forall>p\<in>set mp. \<forall>q\<in>set pos1. fle d (fsqrt (dist2 q p))"
    by (meson fle_trans)
  from dn a_le first rest show ?case by simp
qed

lemma compute_min_dist_Inr:
  assumes "compute_min_dist mp args = Inr d"
  shows "args \<noteq> []"
    and "\<exists>g\<in>set args. \<exists>p\<in>set mp. \<exists>q\<in>set g. d = fsqrt (dist2 q p)"
proof -
  from assms have run: "compute_min_dist_loop None mp args = Inr (Some d)"
    by (auto simp: compute_min_dist_def split: sum.splits option.splits)
  from assms show "args \<noteq> []"
    by (auto simp: compute_min_dist_def)
  from compute_min_dist_loop_attained [OF run]
  show "\<exists>g\<in>set args. \<exists>p\<in>set mp. \<exists>q\<in>set g. d = fsqrt (dist2 q p)"
    by simp
qed

lemma compute_min_dist_finite:
  assumes "compute_min_dist mp args = Inr d"
    and "finite_positions mp" "\<forall>g\<in>set args. finite_positions g"
  shows "d \<noteq> NaN"
    and "\<forall>g\<in>set args. \<forall>p\<in>set mp. \<forall>q\<in>set g. fle d (fsqrt (dist2 q p))"
proof -
  from assms(1) have run: "compute_min_dist_loop None mp args = Inr (Some d)"
    by (auto simp: compute_min_dist_def split: sum.splits option.splits)
  from compute_min_dist_loop_finite [OF run assms(2,3)]
  show "d \<noteq> NaN" and "\<forall>g\<in>set args. \<forall>p\<in>set mp. \<forall>q\<in>set g. fle d (fsqrt (dist2 q p))"
    by simp_all
qed



lemma remove_overlap_loop_exit:
  assumes loop: "remove_overlap_loop rnd args sg md st0 = Some (Inr (h', x, k))"
  shows "\<exists>d. compute_min_dist (cells h' x) (map (cells h') args) = Inr d \<and> \<not> fle d md"
proof -
  let ?P = "\<lambda>(rnd :: nat \<Rightarrow> matrix \<times> vec) args (sigma :: float64) md (st :: heap \<times> nat \<times> nat)
      (r :: error + heap \<times> nat \<times> nat).
      \<forall>h' x' k'. r = Inr (h', x', k') \<longrightarrow>
          (\<exists>d. compute_min_dist (cells h' x') (map (cells h') args) = Inr d \<and> \<not> fle d md)"
  have "?P rnd args sg md st0 (Inr (h', x, k))"
  proof (rule remove_overlap_loop.raw_induct [where P = ?P, OF _ loop])
    fix f rnd args sigma md st r
    assume IH: "\<And>rnd args sigma md st r. f rnd args sigma md st = Some r \<Longrightarrow> ?P rnd args sigma md st r"
      and eq: "(case st of (h, x, k) \<Rightarrow>
        (case compute_min_dist (cells h x) (map (cells h) args) of
          Inl e \<Rightarrow> Some (Inl e)
        | Inr d \<Rightarrow> if fle d md
            then f rnd args sigma md (overlap_step rnd sigma h x k)
            else Some (Inr (h, x, k)))) = Some r"
    show "?P rnd args sigma md st r"
    proof (intro allI impI)
      fix h' x' k'
      assume r: "r = Inr (h', x', k')"
      obtain h x k where st: "st = (h, x, k)" by (cases st) auto
      from eq r st obtain d where d: "compute_min_dist (cells h x) (map (cells h) args) = Inr d"
        by (auto split: sum.splits)
      show "\<exists>d. compute_min_dist (cells h' x') (map (cells h') args) = Inr d \<and> \<not> fle d md"
      proof (cases "fle d md")
        case True
        with eq d st have "f rnd args sigma md (overlap_step rnd sigma h x k) = Some r" by simp
        from IH [OF this] r show ?thesis by blast
      next
        case False
        with eq d r st show ?thesis by auto
      qed
    qed
  qed
  then show ?thesis by simp
qed

lemma flt_fle_trans: "flt a b \<Longrightarrow> fle b c \<Longrightarrow> flt a c"
  by (cases a; cases b; cases c) auto

text \<open>
  Claim C1, amended. Whenever \<open>remove_overlap\<close> returns a result, the minimum distance \<open>d\<close> that
  \<open>compute_min_dist\<close> reports between the returned candidate positions and the fixed
  groups does not satisfy the loop guard \<open>d <= min_distance\<close>, and it is strictly
  greater than \<open>min_distance\<close> provided that neither \<open>d\<close> nor \<open>min_distance\<close> is NaN. A
  result implies that there is at least one fixed group. When all the coordinates are
  finite numbers and \<open>min_distance\<close> is not NaN, the bound holds for every atom of the
  candidate against every atom of every fixed group.
\<close>

theorem remove_overlap_result_clear:
  assumes ret: "remove_overlap rnd h mol_positions args sigma_kw min_distance_kw = Some (Inr (h', x, k))"
  shows "\<exists>d. compute_min_dist (cells h' x) (map (cells h') args) = Inr d \<and>
           \<not> fle d (case min_distance_kw of None \<Rightarrow> Fin 1 | Some m \<Rightarrow> m) \<and>
           (d \<noteq> NaN \<and> (case min_distance_kw of None \<Rightarrow> Fin 1 | Some m \<Rightarrow> m) \<noteq> NaN \<longrightarrow>
              flt (case min_distance_kw of None \<Rightarrow> Fin 1 | Some m \<Rightarrow> m) d) \<and>
           args \<noteq> [] \<and>
           (finite_positions (cells h' x) \<and> (\<forall>g\<in>set args. finite_positions (cells h' g)) \<and>
            (case min_distance_kw of None \<Rightarrow> Fin 1 | Some m \<Rightarrow> m) \<noteq> NaN \<longrightarrow>
              d \<noteq> NaN \<and>
              (\<forall>g\<in>set args. \<forall>p\<in>set (cells h' x). \<forall>q\<in>set (cells h' g).
                 flt (case min_distance_kw of None \<Rightarrow> Fin 1 | Some m \<Rightarrow> m) (fsqrt (dist2 q p))))"
proof -
  define md where "md = (case min_distance_kw of None \<Rightarrow> Fin 1 | Some m \<Rightarrow> m)"
  define sg where "sg = (case sigma_kw of None \<Rightarrow> Fin 1 | Some s \<Rightarrow> s)"
  obtain x0 h1 where a: "alloc (cells h mol_positions) h = (x0, h1)" by force
  from ret a have "remove_overlap_loop rnd args sg md (h1, x0, 0) = Some (Inr (h', x, k))"
    by (simp add: remove_overlap_def md_def sg_def)
  then obtain d where d: "compute_min_dist (cells h' x) (map (cells h') args) = Inr d"
    and guard: "\<not> fle d md"
    using remove_overlap_loop_exit by blast
  from compute_min_dist_Inr(1) [OF d] have ne: "args \<noteq> []" by simp
  from guard have gt: "flt md d" if "d \<noteq> NaN" "md \<noteq> NaN"
    using that by (simp add: not_fle_iff)
  have pairs: "d \<noteq> NaN \<and> (\<forall>g\<in>set args. \<forall>p\<in>set (cells h' x). \<forall>q\<in>set (cells h' g).
                 flt md (fsqrt (dist2 q p)))"
    if fin: "finite_positions (cells h' x)" "\<forall>g\<in>set args. finite_positions (cells h' g)"
      and m: "md \<noteq> NaN"
  proof -
    from fin(2) have fin': "\<forall>g\<in>set (map (cells h') args). finite_positions g" by simp
    note F = compute_min_dist_finite [OF d fin(1) fin']
    from gt [OF F(1) m] have lt: "flt md d" .
    have "flt md (fsqrt (dist2 q p))"
      if "g \<in> set args" "p \<in> set (cells h' x)" "q \<in> set (cells h' g)" for g p q
    proof -
      from that F(2) have "fle d (fsqrt (dist2 q p))" by auto
      with lt show ?thesis by (rule flt_fle_trans)
    qed
    with F(1) show ?thesis by blast
  qed
  from d guard gt ne pairs show ?thesis unfolding md_def by blast
qed

lemma sqrt9: "sqrt 9 = (3 :: real)"
  by (rule real_sqrt_unique) simp_all

lemma cmd_a: "compute_min_dist [(Fin 0, Fin 0, Fin 0)] [[(Fin 0, Fin 0, Fin 0)]] = Inr (Fin 0)"
  by (simp add: compute_min_dist_def group_min_dist_def distances2_def fsub_def fsquare_def)

lemma cmd_b: "compute_min_dist [(Fin 3, Fin 0, Fin 0)] [[(Fin 0, Fin 0, Fin 0)]] = Inr (Fin 3)"
  by (simp add: compute_min_dist_def group_min_dist_def distances2_def fsub_def fsquare_def sqrt9)

lemma cmd_nan: "compute_min_dist [(NaN, Fin 0, Fin 0)] [[(Fin 0, Fin 0, Fin 0)]] = Inr NaN"
  by (simp add: compute_min_dist_def group_min_dist_def distances2_def fsub_def fsquare_def)

lemma run0: "remove_overlap rnd0 heap0 0 [Suc 0] None None =
    Some (Inr (\<lparr>cells = (\<lambda>_. [])(0 := [(Fin 0, Fin 0, Fin 0)], 1 := [(Fin 0, Fin 0, Fin 0)],
                             2 := [(Fin 0, Fin 0, Fin 0)], 3 := [(Fin 3, Fin 0, Fin 0)]),
                 fresh = 4\<rparr>, 3, 1))"
  apply (simp add: remove_overlap_def alloc_def heap0_def)
  apply (subst remove_overlap_loop.simps)
  apply (simp add: cmd_a overlap_step_def alloc_def rnd0_def mean0_def rotate_about_def matvec_def
      fsub_def Let_def)
  apply (subst remove_overlap_loop.simps)
  apply (simp add: cmd_b Let_def)
  done

theorem remove_overlap_result_clear_witness:
  "\<exists>h' x. remove_overlap rnd0 heap0 0 [Suc 0] None None = Some (Inr (h', x, 1)) \<and>
      cells h' x = [(Fin 3, Fin 0, Fin 0)] \<and> cells h' (Suc 0) = [(Fin 0, Fin 0, Fin 0)] \<and>
      compute_min_dist (cells h' x) (map (cells h') [Suc 0]) = Inr (Fin 3) \<and>
      \<not> fle (Fin 3) (Fin 1) \<and> flt (Fin 1) (Fin 3) \<and>
      flt (Fin 1) (fsqrt (dist2 (Fin 0, Fin 0, Fin 0) (Fin 3, Fin 0, Fin 0)))"
  using remove_overlap_result_clear [OF run0] run0
  by (simp add: cmd_b finite_positions_def)

text \<open>
  Claim C1 as the specification states it fails for a candidate with a NaN coordinate:
  the distance is NaN, the guard is false, and
  \<open>remove_overlap\<close> returns the copy at once although the distance is not greater than
  \<open>min_distance\<close>.
\<close>

theorem remove_overlap_nan_counterexample:
  "remove_overlap rnd0 heap_nan 0 [Suc 0] None None = Some (Inr (heap_nan_copy, 2, 0)) \<and>
   cells heap_nan_copy 2 = [(NaN, Fin 0, Fin 0)] \<and>
   map (cells heap_nan_copy) [Suc 0] = [[(Fin 0, Fin 0, Fin 0)]] \<and>
   compute_min_dist (cells heap_nan_copy 2) (map (cells heap_nan_copy) [Suc 0]) = Inr NaN \<and>
   \<not> flt (Fin 1) NaN"
proof -
  have c: "cells heap_nan_copy 2 = [(NaN, Fin 0, Fin 0)]"
    "map (cells heap_nan_copy) [Suc 0] = [[(Fin 0, Fin 0, Fin 0)]]"
    by (simp_all add: heap_nan_copy_def heap_nan_def)
  have "remove_overlap rnd0 heap_nan 0 [Suc 0] None None = Some (Inr (heap_nan_copy, 2, 0))"
    apply (simp add: remove_overlap_def alloc_def heap_nan_def heap_nan_copy_def)
    apply (subst remove_overlap_loop.simps)
    apply (simp add: cmd_nan)
    done
  with c show ?thesis by (simp add: cmd_nan)
qed

text \<open>
  Claim C9. If the candidate already has minimum distance strictly greater than
  \<open>min_distance\<close> from the fixed groups, \<open>remove_overlap\<close> returns after zero
  iterations of the loop, the returned array equals the input, and no array that existed
  before the call (the input among them) is changed.
\<close>

theorem remove_overlap_already_clear:
  assumes d: "compute_min_dist (cells h a) (map (cells h) args) = Inr d"
    and gt: "flt (case min_distance_kw of None \<Rightarrow> Fin 1 | Some m \<Rightarrow> m) d"
    and wf: "a < fresh h" "\<forall>g\<in>set args. g < fresh h"
  shows "\<exists>h' x. remove_overlap rnd h a args sigma_kw min_distance_kw = Some (Inr (h', x, 0)) \<and>
           cells h' x = cells h a \<and>
           (\<forall>b. b < fresh h \<longrightarrow> cells h' b = cells h b)"
proof -
  let ?h1 = "h\<lparr>cells := (cells h)(fresh h := cells h a), fresh := Suc (fresh h)\<rparr>"
  from wf(2) have args: "map (cells ?h1) args = map (cells h) args" by auto
  have x: "cells ?h1 (fresh h) = cells h a" by simp
  from gt have guard: "fle d (case min_distance_kw of None \<Rightarrow> Fin 1 | Some m \<Rightarrow> m) = False"
    by (simp add: flt_not_fle)
  have "remove_overlap rnd h a args sigma_kw min_distance_kw = Some (Inr (?h1, fresh h, 0))"
    unfolding remove_overlap_def alloc_def Let_def prod.case
    by (subst remove_overlap_loop.simps) (use d guard in \<open>simp only: prod.case args x sum.case if_False\<close>)
  moreover have "\<forall>b. b < fresh h \<longrightarrow> cells ?h1 b = cells h b" by simp
  ultimately show ?thesis using x by blast
qed

theorem remove_overlap_already_clear_witness:
  "\<exists>h' x. remove_overlap rnd0 heap_clear 0 [Suc 0] None None = Some (Inr (h', x, 0)) \<and>
     cells h' x = [(Fin 3, Fin 0, Fin 0)] \<and> cells h' 0 = [(Fin 3, Fin 0, Fin 0)] \<and>
     cells h' (Suc 0) = [(Fin 0, Fin 0, Fin 0)]"
proof -
  have d: "compute_min_dist (cells heap_clear 0) (map (cells heap_clear) [Suc 0]) = Inr (Fin 3)"
    by (simp add: cmd_b heap_clear_def)
  have gt: "flt (case (None :: float64 option) of None \<Rightarrow> Fin 1 | Some m \<Rightarrow> m) (Fin 3)" by simp
  have wf: "0 < fresh heap_clear" "\<forall>g\<in>set [Suc 0]. g < fresh heap_clear"
    by (simp_all add: heap_clear_def)
  from remove_overlap_already_clear [OF d gt wf, of rnd0 None]
  show ?thesis by (auto simp: heap_clear_def)
qed

section \<open>Validation of molecules and solvents: properties\<close>

lemma mol_fields_iff:
  "''filepath'' \<in> mol_fields m \<longleftrightarrow> mol_filepath m \<noteq> None"
  "''name'' \<in> mol_fields m \<longleftrightarrow> mol_name m \<noteq> None"
  "''smiles'' \<in> mol_fields m \<longleftrightarrow> mol_smiles m \<noteq> None"
  "''parameters'' \<in> mol_fields m \<longleftrightarrow> mol_parameters m \<noteq> None"
  by (simp_all add: mol_fields_def)

lemma specified_sources:
  "filter (\<lambda>k. k \<in> mol_fields m) sources =
     (if mol_filepath m \<noteq> None then [''filepath''] else []) @
     (if mol_name m \<noteq> None then [''name''] else []) @
     (if mol_smiles m \<noteq> None then [''smiles''] else [])"
  by (simp add: sources_def mol_fields_iff)

lemma one_source_iff:
  "length (filter (\<lambda>b. b) [mol_filepath m \<noteq> None, mol_name m \<noteq> None, mol_smiles m \<noteq> None]) = 1 \<longleftrightarrow>
   \<not> (filter (\<lambda>k. k \<in> mol_fields m) sources = [] \<or>
       length (filter (\<lambda>k. k \<in> mol_fields m) sources) > 1)"
  unfolding specified_sources by simp

lemma filepath_specified:
  "''filepath'' \<in> set (filter (\<lambda>k. k \<in> mol_fields m) sources) \<longleftrightarrow> mol_filepath m \<noteq> None"
  unfolding specified_sources by simp

lemma parse_molecules_loop_step:
  "parse_molecules_loop [] ((i, m) # rest) =
     (if mol_parameters m = None
      then Inl (YamlParseError (''no parameters specified for molecule '' @ i))
      else if filter (\<lambda>k. k \<in> mol_fields m) sources = [] \<or>
              length (filter (\<lambda>k. k \<in> mol_fields m) sources) > 1
      then Inl (YamlParseError (''need only one between '' @ str_join '', '' sources @
                  '' for molecule '' @ i))
      else case mol_filepath m of
             None \<Rightarrow> parse_molecules_loop [] rest
           | Some path \<Rightarrow>
               if extension path \<notin> set file_formats
               then Inl (YamlParseError (''molecule '' @ i @ '', only '' @
                            str_join '', '' file_formats @ '' files supported''))
               else parse_molecules_loop [] rest)"
proof -
  have fp: "''filepath'' \<in> set sources" by (simp add: sources_def)
  show ?thesis
    by (cases "mol_filepath m")
       (simp_all add: Let_def mol_fields_iff fp filepath_specified del: set_filter)
qed

lemma parse_molecules_loop_valid:
  assumes "spec_molecule_valid m"
  shows "parse_molecules_loop [] ((i, m) # rest) = parse_molecules_loop [] rest"
proof -
  from assms have one: "\<not> (filter (\<lambda>k. k \<in> mol_fields m) sources = [] \<or>
       length (filter (\<lambda>k. k \<in> mol_fields m) sources) > 1)"
    and ext: "\<And>path. mol_filepath m = Some path \<Longrightarrow> extension path \<in> set file_formats"
    and par: "mol_parameters m \<noteq> None"
    unfolding spec_molecule_valid_def one_source_iff by (auto simp: file_formats_def)
  show ?thesis
  proof (cases "mol_filepath m")
    case None
    with one par show ?thesis unfolding parse_molecules_loop_step by auto
  next
    case (Some path)
    with one par ext [OF Some] show ?thesis unfolding parse_molecules_loop_step by auto
  qed
qed

lemma parse_molecules_loop_invalid:
  assumes "\<not> spec_molecule_valid m"
  shows "\<exists>pre post. parse_molecules_loop [] ((i, m) # rest) = Inl (YamlParseError (pre @ i @ post))"
proof (cases "mol_parameters m = None")
  case True
  then have "parse_molecules_loop [] ((i, m) # rest) =
      Inl (YamlParseError (''no parameters specified for molecule '' @ i @ []))"
    unfolding parse_molecules_loop_step by simp
  then show ?thesis by blast
next
  case par: False
  let ?spec = "filter (\<lambda>k. k \<in> mol_fields m) sources"
  show ?thesis
  proof (cases "?spec = [] \<or> length ?spec > 1")
    case True
    with par have "parse_molecules_loop [] ((i, m) # rest) =
      Inl (YamlParseError ((''need only one between '' @ str_join '', '' sources @
                  '' for molecule '') @ i @ []))"
      unfolding parse_molecules_loop_step by simp
    then show ?thesis by blast
  next
    case False
    with assms par obtain path where path: "mol_filepath m = Some path"
      and ext: "extension path \<notin> set file_formats"
      unfolding spec_molecule_valid_def one_source_iff
      by (auto simp: file_formats_def split: option.splits)
    with False par have "parse_molecules_loop [] ((i, m) # rest) =
      Inl (YamlParseError (''molecule '' @ i @ ('', only '' @
                            str_join '', '' file_formats @ '' files supported'')))"
      unfolding parse_molecules_loop_step by simp
    then show ?thesis by blast
  qed
qed

lemma extension_examples:
  "extension ''rec.pdb'' = ''pdb''" "extension ''lig.mol2'' = ''mol2''"
  by code_simp+

lemma mol_file_ok_valid: "spec_molecule_valid mol_file_ok"
  by (simp add: spec_molecule_valid_def mol_file_ok_def extension_examples)

lemma mol_two_sources_invalid: "\<not> spec_molecule_valid mol_two_sources"
  by (simp add: spec_molecule_valid_def mol_two_sources_def)


lemma parse_molecules_loop_all_valid:
  "\<forall>(i, m)\<in>set table. spec_molecule_valid m \<Longrightarrow> parse_molecules_loop [] table = Inr ()"
proof (induction table)
  case Nil
  show ?case by simp
next
  case (Cons a table)
  obtain i m where a: "a = (i, m)" by (cases a)
  from Cons.prems a have v: "spec_molecule_valid m" by simp
  from Cons.prems have "\<forall>(i, m)\<in>set table. spec_molecule_valid m" by simp
  then have "parse_molecules_loop [] table = Inr ()" by (rule Cons.IH)
  then show ?case unfolding a parse_molecules_loop_valid [OF v] .
qed

lemma parse_molecules_loop_some_invalid:
  "\<not> (\<forall>(i, m)\<in>set table. spec_molecule_valid m) \<Longrightarrow>
     \<exists>i m pre post. (i, m) \<in> set table \<and> \<not> spec_molecule_valid m \<and>
        parse_molecules_loop [] table = Inl (YamlParseError (pre @ i @ post))"
proof (induction table)
  case Nil
  then show ?case by simp
next
  case (Cons a table)
  obtain i m where a: "a = (i, m)" by (cases a)
  show ?case
  proof (cases "spec_molecule_valid m")
    case True
    with Cons.prems a have "\<not> (\<forall>(i, m)\<in>set table. spec_molecule_valid m)" by simp
    from Cons.IH [OF this] obtain j n pre post where
      "(j, n) \<in> set table" "\<not> spec_molecule_valid n"
      "parse_molecules_loop [] table = Inl (YamlParseError (pre @ j @ post))"
      by blast
    then have "(j, n) \<in> set (a # table) \<and> \<not> spec_molecule_valid n \<and>
        parse_molecules_loop [] (a # table) = Inl (YamlParseError (pre @ j @ post))"
      unfolding a parse_molecules_loop_valid [OF True] by simp
    then show ?thesis by blast
  next
    case False
    from parse_molecules_loop_invalid [OF False, of i table] obtain pre post where
      "parse_molecules_loop [] (a # table) = Inl (YamlParseError (pre @ i @ post))"
      unfolding a by blast
    with False have "(i, m) \<in> set (a # table) \<and> \<not> spec_molecule_valid m \<and>
        parse_molecules_loop [] (a # table) = Inl (YamlParseError (pre @ i @ post))"
      by (simp add: a)
    then show ?thesis by blast
  qed
qed

text \<open>
  Claim C4. Validation of the molecule table succeeds when every descriptor names exactly
  one of file path, name and SMILES, a file path has the extension \<open>mol2\<close> or
  \<open>pdb\<close>, and parameters are given. Otherwise it fails with a
  \<open>YamlParseError\<close> whose message contains the id of a molecule that breaks one of
  these rules.
\<close>

theorem parse_molecules_spec:
  "((\<forall>(i, m)\<in>set table. spec_molecule_valid m) \<longrightarrow> parse_molecules table = Inr ()) \<and>
   (\<not> (\<forall>(i, m)\<in>set table. spec_molecule_valid m) \<longrightarrow>
      (\<exists>i m pre post. (i, m) \<in> set table \<and> \<not> spec_molecule_valid m \<and>
          parse_molecules table = Inl (YamlParseError (pre @ i @ post))))"
  unfolding parse_molecules_def
  using parse_molecules_loop_all_valid [of table] parse_molecules_loop_some_invalid [of table]
  by blast

theorem parse_molecules_spec_witness:
  "parse_molecules [(''rec'', mol_file_ok)] = Inr () \<and>
   (\<exists>pre post. parse_molecules [(''rec'', mol_file_ok), (''lig'', mol_two_sources)] =
       Inl (YamlParseError (pre @ ''lig'' @ post)))"
proof
  from parse_molecules_spec [of "[(''rec'', mol_file_ok)]"] mol_file_ok_valid
  show "parse_molecules [(''rec'', mol_file_ok)] = Inr ()" by simp
next
  let ?table = "[(''rec'', mol_file_ok), (''lig'', mol_two_sources)]"
  have "\<not> (\<forall>(i, m)\<in>set ?table. spec_molecule_valid m)"
    using mol_two_sources_invalid by simp
  with parse_molecules_spec [of ?table] obtain i m pre post where
    mem: "(i, m) \<in> set ?table" and inv: "\<not> spec_molecule_valid m"
    and res: "parse_molecules ?table = Inl (YamlParseError (pre @ i @ post))"
    by blast
  from mem inv mol_file_ok_valid have "i = ''lig''" by auto
  with res show "\<exists>pre post. parse_molecules ?table = Inl (YamlParseError (pre @ ''lig'' @ post))"
    by blast
qed


lemma parse_solvents_loop_ok:
  assumes "\<not> spec_solvent_rejected s"
  shows "parse_solvents_loop [] ((i, s) # rest) = parse_solvents_loop [] rest"
  using assms by (auto simp: spec_solvent_rejected_def Let_def split: option.splits)

lemma parse_solvents_loop_rejected:
  assumes "spec_solvent_rejected s"
  shows "\<exists>msg. parse_solvents_loop [] ((i, s) # rest) = Inl (YamlParseError msg)"
  using assms by (auto simp: spec_solvent_rejected_def Let_def split: option.splits)

lemma parse_solvents_iff:
  "parse_solvents_loop [] table = Inr () \<longleftrightarrow> (\<forall>(i, s)\<in>set table. \<not> spec_solvent_rejected s)"
proof (induction table)
  case Nil
  then show ?case by simp
next
  case (Cons a table)
  obtain i s where a: "a = (i, s)" by (cases a)
  show ?case
  proof (cases "spec_solvent_rejected s")
    case True
    from parse_solvents_loop_rejected [OF True, of i table] True a show ?thesis
      by (auto simp del: parse_solvents_loop.simps)
  next
    case False
    from parse_solvents_loop_ok [OF False, of i table] False a Cons.IH show ?thesis
      by (simp del: parse_solvents_loop.simps)
  qed
qed

lemma parse_solvents_error:
  "parse_solvents_loop [] table = Inl e \<Longrightarrow> \<exists>msg. e = YamlParseError msg"
proof (induction table)
  case Nil
  then show ?case by simp
next
  case (Cons a table)
  obtain i s where a: "a = (i, s)" by (cases a)
  show ?case
  proof (cases "spec_solvent_rejected s")
    case True
    from parse_solvents_loop_rejected [OF True, of i table] Cons.prems a show ?thesis
      by (auto simp del: parse_solvents_loop.simps)
  next
    case False
    from parse_solvents_loop_ok [OF False, of i table] Cons a show ?thesis
      by (simp del: parse_solvents_loop.simps)
  qed
qed

text \<open>
  Claim C3. Validation of the solvent table fails with a \<open>YamlParseError\<close> when some
  solvent has no \<open>nonbondedMethod\<close>, or \<open>NoCutoff\<close> together with a
  \<open>nonbondedCutoff\<close>, or another method together with an \<open>implicitSolvent\<close>, or
  another method with neither \<open>implicitSolvent\<close> nor \<open>clearance\<close>. It succeeds
  when every solvent has a method other than \<open>NoCutoff\<close>, a clearance and no
  implicit solvent.
\<close>

theorem parse_solvents_spec:
  "((\<exists>(i, s)\<in>set table. spec_solvent_rejected s) \<longrightarrow>
      (\<exists>msg. parse_solvents table = Inl (YamlParseError msg))) \<and>
   ((\<forall>(i, s)\<in>set table. spec_solvent_accepted s) \<longrightarrow> parse_solvents table = Inr ())"
proof (intro conjI impI)
  assume rej: "\<exists>(i, s)\<in>set table. spec_solvent_rejected s"
  with parse_solvents_iff [of table] have "parse_solvents_loop [] table \<noteq> Inr ()"
    by auto
  then obtain e where "parse_solvents_loop [] table = Inl e"
    by (cases "parse_solvents_loop [] table") auto
  with parse_solvents_error [OF this] show "\<exists>msg. parse_solvents table = Inl (YamlParseError msg)"
    by (auto simp: parse_solvents_def)
next
  assume acc: "\<forall>(i, s)\<in>set table. spec_solvent_accepted s"
  have "\<not> spec_solvent_rejected s" if "spec_solvent_accepted s" for s
    using that by (auto simp: spec_solvent_accepted_def spec_solvent_rejected_def)
  with acc have "\<forall>(i, s)\<in>set table. \<not> spec_solvent_rejected s" by auto
  with parse_solvents_iff [of table] show "parse_solvents table = Inr ()"
    by (simp add: parse_solvents_def)
qed

theorem parse_solvents_spec_witness:
  "parse_solvents [(''pme'', solvent_pme)] = Inr () \<and>
   (\<exists>msg. parse_solvents [(''pme'', solvent_pme), (''vacuum'', solvent_bad)] = Inl (YamlParseError msg))"
proof
  have "spec_solvent_accepted solvent_pme"
    by (simp add: spec_solvent_accepted_def solvent_pme_def)
  with parse_solvents_spec [of "[(''pme'', solvent_pme)]"]
  show "parse_solvents [(''pme'', solvent_pme)] = Inr ()" by simp
next
  have "spec_solvent_rejected solvent_bad"
    by (simp add: spec_solvent_rejected_def solvent_bad_def)
  with parse_solvents_spec [of "[(''pme'', solvent_pme), (''vacuum'', solvent_bad)]"]
  show "\<exists>msg. parse_solvents [(''pme'', solvent_pme), (''vacuum'', solvent_bad)] = Inl (YamlParseError msg)"
    by simp
qed

section \<open>The pipeline: properties\<close>

subsection \<open>Effects only add to the record of events\<close>


lemma makedirs_Inl: "makedirs p s = (Inl e, s') \<Longrightarrow> s' = s"
  by (auto simp: makedirs_def split: if_splits)

lemma makedirs_Inr:
  assumes "makedirs p s = (Inr u, s')"
  shows "s' = (s\<lparr>fs := (foldl (\<lambda>f a. f(a \<mapsto> Dir)) (fs s) (ancestors p))(p \<mapsto> Dir),
                 trace := trace s @ [Makedirs p]\<rparr>)"
    and "fs s p = None"
  using assms by (auto simp: makedirs_def emit_def split: if_splits)

lemma setup_system_existing_aux:
  assumes "molecules s (c_receptor comps) \<noteq> None"
    and "molecules s (c_ligand comps) \<noteq> None"
    and "solvents s (c_solvent comps) \<noteq> None"
    and "fs s (get_system_setup_dir output_dir (c_receptor comps) (c_ligand comps) (c_solvent comps)) \<noteq> None"
  shows "setup_system env output_dir comps s =
           Some (Inr (get_system_setup_dir output_dir (c_receptor comps) (c_ligand comps) (c_solvent comps)), s)"
  using assms by (auto simp: setup_system_def Let_def)

lemma write_generated_trace:
  "write_generated molecule mol_dir mol_id mol_descr s = (r, s') \<Longrightarrow> \<exists>es. trace s' = trace s @ es"
  by (auto simp: write_generated_def Let_def emit_def split: if_splits option.splits)

lemma run_epik_step_trace:
  "run_epik_step mol_dir mol_id mol_descr s = (r, s') \<Longrightarrow> \<exists>es. trace s' = trace s @ es"
  by (auto simp: run_epik_step_def Let_def emit_def split: if_splits option.splits)

lemma run_antechamber_step_trace:
  "run_antechamber_step env mol_dir mol_id mol_descr s = (r, s') \<Longrightarrow> \<exists>es. trace s' = trace s @ es"
  by (auto simp: run_antechamber_step_def Let_def emit_def split: if_splits option.splits)

lemma process_molecule_trace:
  assumes "process_molecule env molecule mol_dir mol_id mol_descr s = (r, s')"
  shows "\<exists>es. trace s' = trace s @ es"
proof -
  obtain r1 s1 where w: "write_generated molecule mol_dir mol_id mol_descr s = (r1, s1)"
    by (cases "write_generated molecule mol_dir mol_id mol_descr s")
  from write_generated_trace [OF w] obtain es1 where t1: "trace s1 = trace s @ es1" ..
  show ?thesis
  proof (cases r1)
    case (Inl e)
    with assms w t1 show ?thesis by (simp add: process_molecule_def)
  next
    case (Inr d1)
    obtain r2 s2 where e: "run_epik_step mol_dir mol_id d1 s1 = (r2, s2)"
      by (cases "run_epik_step mol_dir mol_id d1 s1")
    from run_epik_step_trace [OF e] obtain es2 where t2: "trace s2 = trace s1 @ es2" ..
    show ?thesis
    proof (cases r2)
      case (Inl e')
      with assms w Inr e t1 t2 show ?thesis by (simp add: process_molecule_def)
    next
      case d2: (Inr d2)
      with assms w Inr e have "run_antechamber_step env mol_dir mol_id d2 s2 = (r, s')"
        by (simp add: process_molecule_def)
      from run_antechamber_step_trace [OF this] t1 t2 show ?thesis by auto
    qed
  qed
qed

lemma makedirs_trace: "makedirs p s = (r, s') \<Longrightarrow> \<exists>es. trace s' = trace s @ es"
  by (auto simp: makedirs_def emit_def split: if_splits)

lemma save_molecule_trace:
  assumes "save_molecule env output_dir molecule mol_id s = (r, s')"
  shows "\<exists>es. trace s' = trace s @ es"
proof (cases "molecules s mol_id")
  case None
  with assms show ?thesis by (simp add: save_molecule_def)
next
  case (Some d)
  let ?mol_dir = "get_molecule_setup_dir output_dir mol_id"
  let ?test = "if oe_molecules s mol_id \<noteq> None then Inr True
     else (case mol_parameters d of None \<Rightarrow> Inl (KeyError ''parameters'')
           | Some parameters \<Rightarrow> Inr (parameters = ''antechamber''))"
  show ?thesis
  proof (cases ?test)
    case (Inl e)
    with assms Some show ?thesis by (simp add: save_molecule_def)
  next
    case (Inr b)
    show ?thesis
    proof (cases b)
      case False
      with assms Some Inr show ?thesis by (simp add: save_molecule_def)
    next
      case True
      show ?thesis
      proof (cases "fs s ?mol_dir = None")
        case nodir: True
        obtain r1 s1 where m: "makedirs ?mol_dir s = (r1, s1)" by (cases "makedirs ?mol_dir s")
        from makedirs_trace [OF m] obtain es1 where t1: "trace s1 = trace s @ es1" ..
        show ?thesis
        proof (cases r1)
          case (Inl e)
          with assms Some Inr True nodir m t1 show ?thesis
            by (simp add: save_molecule_def Let_def)
        next
          case ok: (Inr u)
          with assms Some Inr True nodir m
          have "process_molecule env molecule ?mol_dir mol_id d s1 = (r, s')"
            by (simp add: save_molecule_def Let_def)
          from process_molecule_trace [OF this] t1 show ?thesis by auto
        qed
      next
        case isdir: False
        show ?thesis
        proof (cases "oe_molecules s mol_id = None")
          case True
          with assms Some Inr \<open>b\<close> isdir show ?thesis
            by (auto simp: save_molecule_def Let_def)
        next
          case False
          with assms Some Inr \<open>b\<close> isdir
          have "process_molecule env molecule ?mol_dir mol_id d s = (r, s')"
            by (auto simp: save_molecule_def Let_def)
          from process_molecule_trace [OF this] show ?thesis .
        qed
      qed
    qed
  qed
qed

lemma save_molecules_trace:
  "save_molecules env output_dir molecule args s = (r, s') \<Longrightarrow> \<exists>es. trace s' = trace s @ es"
proof (induction args arbitrary: s)
  case Nil
  then show ?case by simp
next
  case (Cons mol_id rest)
  obtain r1 s1 where b: "save_molecule env output_dir molecule mol_id s = (r1, s1)"
    by (cases "save_molecule env output_dir molecule mol_id s")
  from save_molecule_trace [OF b] obtain es1 where t1: "trace s1 = trace s @ es1" ..
  show ?case
  proof (cases r1)
    case (Inl e)
    with Cons.prems b t1 show ?thesis by simp
  next
    case (Inr u)
    with Cons.prems b have "save_molecules env output_dir molecule rest s1 = (r, s')" by simp
    from Cons.IH [OF this] t1 show ?thesis by auto
  qed
qed

lemma solve_overlaps_trace:
  "solve_overlaps env args fixed_pos molecule s = Some (r, s') \<Longrightarrow> trace s' = trace s"
proof (induction args arbitrary: fixed_pos molecule s)
  case Nil
  then show ?case by simp
next
  case (Cons mol_id rest)
  show ?case
  proof (cases "oe_molecules s mol_id")
    case None
    with Cons.prems have "solve_overlaps env rest fixed_pos molecule s = Some (r, s')" by simp
    then show ?thesis by (rule Cons.IH)
  next
    case (Some m)
    show ?thesis
    proof (cases "fixed_pos = []")
      case True
      with Cons.prems Some
      have "solve_overlaps env rest (dict_set mol_id (oe_positions m) fixed_pos) (Some mol_id) s = Some (r, s')"
        by simp
      then show ?thesis by (rule Cons.IH)
    next
      case False
      let ?ro = "remove_overlap_values (\<lambda>k. random_draws env (draws s + k))
                       (oe_positions m) (map snd fixed_pos) (Fin 1) (Fin 1)"
      from Cons.prems Some False obtain res where ro: "?ro = Some res"
        by (cases ?ro) auto
      show ?thesis
      proof (cases res)
        case (Inl e)
        with Cons.prems Some False ro show ?thesis by simp
      next
        case (Inr pk)
        obtain molecule_pos k where pk: "pk = (molecule_pos, k)" by (cases pk)
        let ?s1 = "s\<lparr>oe_molecules := (oe_molecules s)(mol_id \<mapsto> m\<lparr>oe_positions := molecule_pos\<rparr>),
                         draws := draws s + k\<rparr>"
        from Cons.prems Some False ro Inr pk
        have "solve_overlaps env rest (dict_set mol_id molecule_pos fixed_pos) (Some mol_id) ?s1 = Some (r, s')"
          by simp
        from Cons.IH [OF this] show ?thesis by simp
      qed
    qed
  qed
qed

lemma fixed_positions_trace:
  "fixed_positions env s ids = (r, s') \<Longrightarrow> trace s' = trace s"
  by (auto simp: fixed_positions_def Let_def split: if_splits sum.splits)

lemma setup_molecules_trace:
  assumes "setup_molecules env output_dir args s = Some (r, s')"
  shows "\<exists>es. trace s' = trace s @ es"
proof -
  from assms obtain ids where ids: "file_mol_ids_of s args = Inr ids \<or> s' = s"
    by (auto simp: setup_molecules_def split: sum.splits)
  show ?thesis
  proof (cases "s' = s")
    case True
    then show ?thesis by simp
  next
    case False
    with ids have i: "file_mol_ids_of s args = Inr ids" by simp
    from assms i False obtain generated where
      g: "generate_missing env s (remdups ids) args = Inr generated"
      by (auto simp: setup_molecules_def Let_def split: sum.splits)
    let ?s1 = "s\<lparr>oe_molecules := map_update_all (oe_molecules s) generated\<rparr>"
    obtain r2 s2 where f: "fixed_positions env ?s1 (remdups ids) = (r2, s2)"
      by (cases "fixed_positions env ?s1 (remdups ids)")
    from fixed_positions_trace [OF f] have t2: "trace s2 = trace s" by simp
    show ?thesis
    proof (cases r2)
      case (Inl e)
      with assms i g f t2 show ?thesis by (simp add: setup_molecules_def Let_def)
    next
      case (Inr fixed_pos)
      with assms i g f obtain res where
        so: "solve_overlaps env args fixed_pos None s2 = Some res"
        by (cases "solve_overlaps env args fixed_pos None s2")
           (auto simp: setup_molecules_def Let_def)
      obtain r3 s3 where res: "res = (r3, s3)" by (cases res)
      from solve_overlaps_trace [OF so [unfolded res]] t2 have t3: "trace s3 = trace s" by simp
      show ?thesis
      proof (cases r3)
        case (Inl e)
        with assms i g f Inr so res t3 show ?thesis by (simp add: setup_molecules_def Let_def)
      next
        case ok: (Inr fm)
        obtain fp molecule where fm: "fm = (fp, molecule)" by (cases fm)
        with assms i g f Inr so res ok
        have "save_molecules env output_dir molecule args s3 = (r, s')"
          by (simp add: setup_molecules_def Let_def)
        from save_molecules_trace [OF this] t3 show ?thesis by simp
      qed
    qed
  qed
qed

lemma run_tleap_trace:
  "run_tleap system_dir comps solv s = (r, s') \<Longrightarrow> \<exists>es. trace s' = trace s @ es"
  by (auto simp: run_tleap_def emit_def split: option.splits sum.splits)

lemma setup_system_trace:
  assumes "setup_system env output_dir comps s = Some (r, s')"
  shows "\<exists>es. trace s' = trace s @ es"
proof (cases "s' = s")
  case True
  then show ?thesis by simp
next
  case False
  let ?system_dir = "get_system_setup_dir output_dir (c_receptor comps) (c_ligand comps) (c_solvent comps)"
  from assms False obtain solv where solv: "solvents s (c_solvent comps) = Some solv"
    and rec: "molecules s (c_receptor comps) \<noteq> None"
    and lig: "molecules s (c_ligand comps) \<noteq> None"
    and nodir: "fs s ?system_dir = None"
    by (auto simp: setup_system_def Let_def split: option.splits if_splits)
  obtain r1 s1 where m: "makedirs ?system_dir s = (r1, s1)" by (cases "makedirs ?system_dir s")
  from makedirs_trace [OF m] obtain es1 where t1: "trace s1 = trace s @ es1" ..
  show ?thesis
  proof (cases r1)
    case (Inl e)
    with assms solv rec lig nodir m t1 show ?thesis
      by (auto simp: setup_system_def Let_def)
  next
    case (Inr u)
    with assms solv rec lig nodir m obtain res where
      sm: "setup_molecules env output_dir [c_receptor comps, c_ligand comps] s1 = Some res"
      by (cases "setup_molecules env output_dir [c_receptor comps, c_ligand comps] s1")
         (auto simp: setup_system_def Let_def)
    obtain r2 s2 where res: "res = (r2, s2)" by (cases res)
    from setup_molecules_trace [OF sm [unfolded res]] t1
    obtain es2 where t2: "trace s2 = trace s @ es2" by auto
    show ?thesis
    proof (cases r2)
      case (Inl e)
      with assms solv rec lig nodir m Inr sm res t2 show ?thesis
        by (auto simp: setup_system_def Let_def)
    next
      case ok: (Inr u2)
      with assms solv rec lig nodir m Inr sm res
      have "run_tleap ?system_dir comps solv s2 = (r, s')"
        by (auto simp: setup_system_def Let_def)
      from run_tleap_trace [OF this] t2 show ?thesis by auto
    qed
  qed
qed

subsection \<open>The system stage\<close>

text \<open>
  Claim C5. If the directory of the system exists, \<open>_setup_system\<close> returns its path
  and leaves the whole state as it was: no event (no call of an external tool, no
  directory created, no file written), the same file system, the same descriptors. The
  three ids are those of a validated experiment, so they are in the tables.
\<close>

theorem setup_system_existing:
  assumes "molecules s (c_receptor comps) \<noteq> None"
    and "molecules s (c_ligand comps) \<noteq> None"
    and "solvents s (c_solvent comps) \<noteq> None"
    and "fs s (get_system_setup_dir output_dir (c_receptor comps) (c_ligand comps) (c_solvent comps)) \<noteq> None"
  shows "setup_system env output_dir comps s =
           Some (Inr (get_system_setup_dir output_dir (c_receptor comps) (c_ligand comps) (c_solvent comps)), s)"
  using assms by (auto simp: setup_system_def Let_def)

subsection \<open>The experiment stage\<close>

lemma create_experiment_Inr:
  assumes "create_experiment env experiment exp_opts results_dir exp_name s = Some (Inr (), s')"
  shows "\<exists>s1 s2 system_dir ligand path solv.
           generate_yaml experiment results_dir (exp_name @ ''.yaml'') s = (Inr (), s1) \<and>
           setup_system env (opt_output_dir exp_opts) (exp_components experiment) s1 = Some (Inr system_dir, s2) \<and>
           molecules s2 (c_ligand (exp_components experiment)) = Some ligand \<and>
           mol_filepath ligand = Some path \<and>
           solvents s2 (c_solvent (exp_components experiment)) = Some solv \<and>
           s' = emit (YankCreate (opt_temperature exp_opts) (opt_pressure exp_opts))
                  (emit (PrepareAmber system_dir
                     (''resname '' @ (case get_mol2_resname env path of None \<Rightarrow> ''MOL'' | Some r \<Rightarrow> r))
                     (system_parameters solv exp_opts)) s2)"
proof -
  let ?comps = "exp_components experiment"
  obtain r1 s1 where g: "generate_yaml experiment results_dir (exp_name @ ''.yaml'') s = (r1, s1)"
    by (cases "generate_yaml experiment results_dir (exp_name @ ''.yaml'') s")
  from assms g obtain u where r1: "r1 = Inr u"
    by (cases r1) (auto simp: create_experiment_def Let_def)
  from assms g r1 obtain res where
    ss: "setup_system env (opt_output_dir exp_opts) ?comps s1 = Some res"
    by (cases "setup_system env (opt_output_dir exp_opts) ?comps s1")
       (auto simp: create_experiment_def Let_def)
  obtain r2 s2 where res: "res = (r2, s2)" by (cases res)
  from assms g r1 ss res obtain system_dir where r2: "r2 = Inr system_dir"
    by (cases r2) (auto simp: create_experiment_def Let_def)
  from assms g r1 ss res r2 obtain ligand where lig: "molecules s2 (c_ligand ?comps) = Some ligand"
    by (cases "molecules s2 (c_ligand ?comps)") (auto simp: create_experiment_def Let_def)
  from assms g r1 ss res r2 lig obtain path where path: "mol_filepath ligand = Some path"
    by (cases "mol_filepath ligand") (auto simp: create_experiment_def Let_def)
  from assms g r1 ss res r2 lig path obtain solv where solv: "solvents s2 (c_solvent ?comps) = Some solv"
    by (cases "solvents s2 (c_solvent ?comps)") (auto simp: create_experiment_def Let_def)
  from assms g r1 ss res r2 lig path solv
  have "s' = emit (YankCreate (opt_temperature exp_opts) (opt_pressure exp_opts))
                  (emit (PrepareAmber system_dir
                     (''resname '' @ (case get_mol2_resname env path of None \<Rightarrow> ''MOL'' | Some r \<Rightarrow> r))
                     (system_parameters solv exp_opts)) s2)"
    by (simp add: create_experiment_def Let_def)
  with g r1 ss res r2 lig path solv show ?thesis by auto
qed

lemma generate_yaml_Inr:
  assumes "generate_yaml experiment output_dir file_name s = (Inr u, s')"
  shows "s' = s\<lparr>fs := (fs s)(path_join output_dir [file_name] \<mapsto> File),
               trace := trace s @ [WriteYaml (path_join output_dir [file_name]) (yaml_sections s experiment)]\<rparr>"
  using assms by (auto simp: generate_yaml_def Let_def emit_def split: if_splits)

lemma yaml_sections_cong: "raw_yaml s = raw_yaml t \<Longrightarrow> yaml_sections s e = yaml_sections t e"
  by (simp add: yaml_sections_def)

lemma run_experiment_resume:
  assumes opts: "experiment_options env s experiment = Inr exp_opts"
    and dir: "fs s (get_experiment_dir (opt_output_dir exp_opts) experiment_dir) = Some Dir"
  shows "run_experiment env experiment experiment_dir s =
     Some (Inr (), (if opt_mpi exp_opts then emit MpiBarrier s else s)
       \<lparr>trace := trace (if opt_mpi exp_opts then emit MpiBarrier s else s) @
          [ConfigRootLogger (opt_verbose exp_opts)
             (path_join (get_experiment_dir (opt_output_dir exp_opts) experiment_dir)
                [experiment_name experiment_dir @ ''.log'']),
           YankInit (get_experiment_dir (opt_output_dir exp_opts) experiment_dir)
             (opt_mpi exp_opts) (isolate_yank_options exp_opts),
           YankResume, YankRun]\<rparr>)"
  using opts dir by (simp add: run_experiment_def Let_def emit_def)

lemma run_experiment_create:
  assumes opts: "experiment_options env s experiment = Inr exp_opts"
    and rd: "results_dir = get_experiment_dir (opt_output_dir exp_opts) experiment_dir"
    and s1: "s1 = (if opt_mpi exp_opts then emit MpiBarrier s else s)"
    and nodir: "fs s results_dir \<noteq> Some Dir"
    and run: "run_experiment env experiment experiment_dir s = Some (Inr (), s')"
  shows "\<exists>s2 s4 system_dir ligand path solv.
     makedirs results_dir s1 = (Inr (), s2) \<and>
     setup_system env (opt_output_dir exp_opts) (exp_components experiment)
       (s2\<lparr>fs := (fs s2)(path_join results_dir [experiment_name experiment_dir @ ''.yaml''] \<mapsto> File),
           trace := trace s2 @
             [ConfigRootLogger (opt_verbose exp_opts)
                (path_join results_dir [experiment_name experiment_dir @ ''.log'']),
              YankInit results_dir (opt_mpi exp_opts) (isolate_yank_options exp_opts),
              WriteYaml (path_join results_dir [experiment_name experiment_dir @ ''.yaml''])
                (yaml_sections s experiment)]\<rparr>)
       = Some (Inr system_dir, s4) \<and>
     molecules s4 (c_ligand (exp_components experiment)) = Some ligand \<and>
     mol_filepath ligand = Some path \<and>
     solvents s4 (c_solvent (exp_components experiment)) = Some solv \<and>
     s' = s4\<lparr>trace := trace s4 @
            [PrepareAmber system_dir
               (''resname '' @ (case get_mol2_resname env path of None \<Rightarrow> ''MOL'' | Some r \<Rightarrow> r))
               (system_parameters solv exp_opts),
             YankCreate (opt_temperature exp_opts) (opt_pressure exp_opts),
             YankRun]\<rparr>"
proof -
  from nodir s1 have nodir1: "fs s1 results_dir \<noteq> Some Dir" by (simp add: emit_def)
  obtain r2 s2 where m: "makedirs results_dir s1 = (r2, s2)" by (cases "makedirs results_dir s1")
  from run opts rd s1 nodir1 m have r2: "r2 = Inr ()"
    by (cases r2) (auto simp: run_experiment_def Let_def)
  note m' = m [unfolded r2]
  let ?s3 = "emit (YankInit results_dir (opt_mpi exp_opts) (isolate_yank_options exp_opts))
               (emit (ConfigRootLogger (opt_verbose exp_opts)
                  (path_join results_dir [experiment_name experiment_dir @ ''.log''])) s2)"
  from run opts rd s1 nodir1 m' obtain res where
    ce: "create_experiment env experiment exp_opts results_dir (experiment_name experiment_dir) ?s3 = Some res"
    by (cases "create_experiment env experiment exp_opts results_dir (experiment_name experiment_dir) ?s3")
       (auto simp: run_experiment_def Let_def)
  obtain r4 s5 where res: "res = (r4, s5)" by (cases res)
  from run opts rd s1 nodir1 m' ce res have r4: "r4 = Inr ()" and s': "s' = emit YankRun s5"
    by (cases r4; auto simp: run_experiment_def Let_def)+
  from create_experiment_Inr [OF ce [unfolded res r4]]
  obtain t1 s4 system_dir ligand path solv where
    g: "generate_yaml experiment results_dir (experiment_name experiment_dir @ ''.yaml'') ?s3 = (Inr (), t1)"
    and ss: "setup_system env (opt_output_dir exp_opts) (exp_components experiment) t1 = Some (Inr system_dir, s4)"
    and lig: "molecules s4 (c_ligand (exp_components experiment)) = Some ligand"
    and path: "mol_filepath ligand = Some path"
    and solv: "solvents s4 (c_solvent (exp_components experiment)) = Some solv"
    and s5: "s5 = emit (YankCreate (opt_temperature exp_opts) (opt_pressure exp_opts))
                  (emit (PrepareAmber system_dir
                     (''resname '' @ (case get_mol2_resname env path of None \<Rightarrow> ''MOL'' | Some r \<Rightarrow> r))
                     (system_parameters solv exp_opts)) s4)"
    by blast
  have raw: "raw_yaml ?s3 = raw_yaml s"
    using makedirs_Inr(1) [OF m'] s1 by (simp add: emit_def)
  from generate_yaml_Inr [OF g] yaml_sections_cong [OF raw]
  have t1: "t1 = s2\<lparr>fs := (fs s2)(path_join results_dir [experiment_name experiment_dir @ ''.yaml''] \<mapsto> File),
           trace := trace s2 @
             [ConfigRootLogger (opt_verbose exp_opts)
                (path_join results_dir [experiment_name experiment_dir @ ''.log'']),
              YankInit results_dir (opt_mpi exp_opts) (isolate_yank_options exp_opts),
              WriteYaml (path_join results_dir [experiment_name experiment_dir @ ''.yaml''])
                (yaml_sections s experiment)]\<rparr>"
    by (simp add: emit_def)
  from s' s5 have "s' = s4\<lparr>trace := trace s4 @
            [PrepareAmber system_dir
               (''resname '' @ (case get_mol2_resname env path of None \<Rightarrow> ''MOL'' | Some r \<Rightarrow> r))
               (system_parameters solv exp_opts),
             YankCreate (opt_temperature exp_opts) (opt_pressure exp_opts),
             YankRun]\<rparr>"
    by (simp add: emit_def)
  with m' ss [unfolded t1] lig path solv show ?thesis by blast
qed

lemma paths0:
  "get_experiment_dir ''out'' [] = ''out/experiments/''"
  "get_system_setup_dir ''out'' ''rec'' ''lig'' ''pme'' = ''out/setup/systems/rec_lig_pme''"
  "experiment_name [] = ''experiment''"
  "path_join ''out/experiments/'' [''experiment.yaml''] = ''out/experiments/experiment.yaml''"
  "path_join ''out/experiments/'' [''experiment.log''] = ''out/experiments/experiment.log''"
  "ancestors ''out/experiments/'' = [''out'', ''out/experiments'']"
  by code_simp+

lemma options_exp0:
  "experiment_options env0 builder_resume exp0 = Inr options0"
  "experiment_options env0 builder_create exp0 = Inr options0"
  by (simp_all add: experiment_options_def env0_def exp0_def builder_resume_def builder_create_def
      builder0_def update_options_def empty_dict_def options0_def)

lemma builder_create_fields:
  "options builder_create = options0"
  "molecules builder_create = [''rec'' \<mapsto> mol_file_ok, ''lig'' \<mapsto> mol_file2]"
  "solvents builder_create = [''pme'' \<mapsto> solvent_pme]"
  "fs builder_create = [''out/setup/systems/rec_lig_pme'' \<mapsto> Dir]"
  "trace builder_create = []"
  "raw_yaml builder_create = raw0"
  by (simp_all add: builder_create_def builder0_def)

lemma options0_fields:
  "opt_mpi options0 = False" "opt_output_dir options0 = ''out''" "opt_verbose options0 = False"
  by (simp_all add: options0_def)

lemma exp0_fields:
  "exp_components exp0 = \<lparr>c_receptor = ''rec'', c_ligand = ''lig'', c_solvent = ''pme''\<rparr>"
  "exp_options exp0 = None"
  by (simp_all add: exp0_def)

lemma run_create0:
  "\<exists>s'. run_experiment env0 exp0 [] builder_create = Some (Inr (), s')"
  by (simp add: run_experiment_def options_exp0 Let_def options0_fields paths0 builder_create_fields
      makedirs_def emit_def create_experiment_def generate_yaml_def exp0_fields
      setup_system_def mol_file2_def)

text \<open>
  Claim C6. In \<open>_run_experiment\<close>, if the directory of the experiment exists, the run
  is resumed: after the logger and the engine are set up the only events are
  \<open>yank.resume()\<close> and \<open>yank.run()\<close>, and nothing else in the state changes (no
  snapshot, no system assembly). If it does not exist and the call returns normally, the
  directory is created, then the snapshot is written, then \<open>_setup_system\<close> runs on
  that state and returns the system directory, and the events end with
  \<open>prepare_amber\<close>, \<open>yank.create\<close> and \<open>yank.run()\<close>.
\<close>

theorem run_experiment_resume_or_create:
  assumes opts: "experiment_options env s experiment = Inr exp_opts"
    and rd: "results_dir = get_experiment_dir (opt_output_dir exp_opts) experiment_dir"
    and nm: "exp_name = experiment_name experiment_dir"
    and s1: "s1 = (if opt_mpi exp_opts then emit MpiBarrier s else s)"
  shows "(fs s results_dir = Some Dir \<longrightarrow>
            run_experiment env experiment experiment_dir s =
              Some (Inr (), s1\<lparr>trace := trace s1 @
                [ConfigRootLogger (opt_verbose exp_opts) (path_join results_dir [exp_name @ ''.log'']),
                 YankInit results_dir (opt_mpi exp_opts) (isolate_yank_options exp_opts),
                 YankResume, YankRun]\<rparr>)) \<and>
         (fs s results_dir \<noteq> Some Dir \<longrightarrow>
            (\<forall>s'. run_experiment env experiment experiment_dir s = Some (Inr (), s') \<longrightarrow>
               (\<exists>s2 s3 s4 system_dir es ligand_dsl system_pars.
                  makedirs results_dir s1 = (Inr (), s2) \<and>
                  fs s2 results_dir = Some Dir \<and>
                  trace s3 = trace s1 @
                    [Makedirs results_dir,
                     ConfigRootLogger (opt_verbose exp_opts) (path_join results_dir [exp_name @ ''.log'']),
                     YankInit results_dir (opt_mpi exp_opts) (isolate_yank_options exp_opts),
                     WriteYaml (path_join results_dir [exp_name @ ''.yaml''])
                       (yaml_sections s experiment)] \<and>
                  fs s3 (path_join results_dir [exp_name @ ''.yaml'']) = Some File \<and>
                  setup_system env (opt_output_dir exp_opts) (exp_components experiment) s3 =
                    Some (Inr system_dir, s4) \<and>
                  trace s' = trace s3 @ es @
                    [PrepareAmber system_dir ligand_dsl system_pars,
                     YankCreate (opt_temperature exp_opts) (opt_pressure exp_opts),
                     YankRun])))"
proof (intro conjI impI allI)
  assume "fs s results_dir = Some Dir"
  with run_experiment_resume [OF opts, of experiment_dir] rd nm s1
  show "run_experiment env experiment experiment_dir s =
              Some (Inr (), s1\<lparr>trace := trace s1 @
                [ConfigRootLogger (opt_verbose exp_opts) (path_join results_dir [exp_name @ ''.log'']),
                 YankInit results_dir (opt_mpi exp_opts) (isolate_yank_options exp_opts),
                 YankResume, YankRun]\<rparr>)"
    by simp
next
  fix s'
  assume nodir: "fs s results_dir \<noteq> Some Dir"
    and run: "run_experiment env experiment experiment_dir s = Some (Inr (), s')"
  let ?yaml = "path_join results_dir [exp_name @ ''.yaml'']"
  from run_experiment_create [OF opts rd s1 nodir run]
  obtain s2 s4 system_dir ligand path solv where
    m: "makedirs results_dir s1 = (Inr (), s2)"
    and ss: "setup_system env (opt_output_dir exp_opts) (exp_components experiment)
       (s2\<lparr>fs := (fs s2)(?yaml \<mapsto> File),
           trace := trace s2 @
             [ConfigRootLogger (opt_verbose exp_opts) (path_join results_dir [exp_name @ ''.log'']),
              YankInit results_dir (opt_mpi exp_opts) (isolate_yank_options exp_opts),
              WriteYaml ?yaml (yaml_sections s experiment)]\<rparr>)
       = Some (Inr system_dir, s4)"
    and s': "s' = s4\<lparr>trace := trace s4 @
            [PrepareAmber system_dir
               (''resname '' @ (case get_mol2_resname env path of None \<Rightarrow> ''MOL'' | Some r \<Rightarrow> r))
               (system_parameters solv exp_opts),
             YankCreate (opt_temperature exp_opts) (opt_pressure exp_opts),
             YankRun]\<rparr>"
    unfolding nm by blast
  let ?s3 = "s2\<lparr>fs := (fs s2)(?yaml \<mapsto> File),
           trace := trace s2 @
             [ConfigRootLogger (opt_verbose exp_opts) (path_join results_dir [exp_name @ ''.log'']),
              YankInit results_dir (opt_mpi exp_opts) (isolate_yank_options exp_opts),
              WriteYaml ?yaml (yaml_sections s experiment)]\<rparr>"
  from makedirs_Inr(1) [OF m] have t2: "trace s2 = trace s1 @ [Makedirs results_dir]"
    and d2: "fs s2 results_dir = Some Dir" by simp_all
  from setup_system_trace [OF ss] obtain es where es: "trace s4 = trace ?s3 @ es" ..
  have t3: "trace ?s3 = trace s1 @
                    [Makedirs results_dir,
                     ConfigRootLogger (opt_verbose exp_opts) (path_join results_dir [exp_name @ ''.log'']),
                     YankInit results_dir (opt_mpi exp_opts) (isolate_yank_options exp_opts),
                     WriteYaml ?yaml (yaml_sections s experiment)]"
    using t2 by simp
  have f3: "fs ?s3 ?yaml = Some File" by simp
  from s' es have "trace s' = trace ?s3 @ es @
            [PrepareAmber system_dir
               (''resname '' @ (case get_mol2_resname env path of None \<Rightarrow> ''MOL'' | Some r \<Rightarrow> r))
               (system_parameters solv exp_opts),
             YankCreate (opt_temperature exp_opts) (opt_pressure exp_opts),
             YankRun]"
    by simp
  with m d2 t3 f3 ss
  show "\<exists>s2 s3 s4 system_dir es ligand_dsl system_pars.
                  makedirs results_dir s1 = (Inr (), s2) \<and>
                  fs s2 results_dir = Some Dir \<and>
                  trace s3 = trace s1 @
                    [Makedirs results_dir,
                     ConfigRootLogger (opt_verbose exp_opts) (path_join results_dir [exp_name @ ''.log'']),
                     YankInit results_dir (opt_mpi exp_opts) (isolate_yank_options exp_opts),
                     WriteYaml (path_join results_dir [exp_name @ ''.yaml''])
                       (yaml_sections s experiment)] \<and>
                  fs s3 (path_join results_dir [exp_name @ ''.yaml'']) = Some File \<and>
                  setup_system env (opt_output_dir exp_opts) (exp_components experiment) s3 =
                    Some (Inr system_dir, s4) \<and>
                  trace s' = trace s3 @ es @
                    [PrepareAmber system_dir ligand_dsl system_pars,
                     YankCreate (opt_temperature exp_opts) (opt_pressure exp_opts),
                     YankRun]"
    by blast
qed

lemma builder_resume_fields:
  "fs builder_resume = [''out/experiments/'' \<mapsto> Dir]"
  "trace builder_resume = []"
  by (simp_all add: builder_resume_def builder0_def)

theorem run_experiment_resume_or_create_witness:
  "run_experiment env0 exp0 [] builder_resume =
     Some (Inr (), builder_resume\<lparr>trace :=
        [ConfigRootLogger False ''out/experiments/experiment.log'',
         YankInit ''out/experiments/'' False (isolate_yank_options options0),
         YankResume, YankRun]\<rparr>) \<and>
   (\<exists>s' s3 s4 system_dir es ligand_dsl system_pars.
      run_experiment env0 exp0 [] builder_create = Some (Inr (), s') \<and>
      trace s3 =
        [Makedirs ''out/experiments/'',
         ConfigRootLogger False ''out/experiments/experiment.log'',
         YankInit ''out/experiments/'' False (isolate_yank_options options0),
         WriteYaml ''out/experiments/experiment.yaml'' (yaml_sections builder_create exp0)] \<and>
      setup_system env0 ''out'' (exp_components exp0) s3 = Some (Inr system_dir, s4) \<and>
      trace s' = trace s3 @ es @
        [PrepareAmber system_dir ligand_dsl system_pars,
         YankCreate (opt_temperature options0) (opt_pressure options0), YankRun])"
proof
  have "fs builder_resume (get_experiment_dir (opt_output_dir options0) []) = Some Dir"
    by (simp add: builder_resume_fields options0_fields paths0)
  moreover have "builder_resume = (if opt_mpi options0 then emit MpiBarrier builder_resume else builder_resume)"
    by (simp add: options0_fields)
  ultimately show "run_experiment env0 exp0 [] builder_resume =
     Some (Inr (), builder_resume\<lparr>trace :=
        [ConfigRootLogger False ''out/experiments/experiment.log'',
         YankInit ''out/experiments/'' False (isolate_yank_options options0),
         YankResume, YankRun]\<rparr>)"
    using run_experiment_resume_or_create [OF options_exp0(1) refl refl, of builder_resume "[]"]
    by (simp add: options0_fields paths0 builder_resume_fields)
next
  obtain s' where run: "run_experiment env0 exp0 [] builder_create = Some (Inr (), s')"
    using run_create0 ..
  have nodir: "fs builder_create (get_experiment_dir (opt_output_dir options0) []) \<noteq> Some Dir"
    by (simp add: builder_create_fields options0_fields paths0)
  have s1: "builder_create = (if opt_mpi options0 then emit MpiBarrier builder_create else builder_create)"
    by (simp add: options0_fields)
  from run_experiment_resume_or_create [OF options_exp0(2) refl refl s1, of "[]"] run nodir
  obtain s3 s4 system_dir es ligand_dsl system_pars where
    t3: "trace s3 = trace builder_create @
        [Makedirs (get_experiment_dir (opt_output_dir options0) []),
         ConfigRootLogger (opt_verbose options0)
           (path_join (get_experiment_dir (opt_output_dir options0) []) [experiment_name [] @ ''.log'']),
         YankInit (get_experiment_dir (opt_output_dir options0) []) (opt_mpi options0)
           (isolate_yank_options options0),
         WriteYaml (path_join (get_experiment_dir (opt_output_dir options0) []) [experiment_name [] @ ''.yaml''])
           (yaml_sections builder_create exp0)]"
    and ss: "setup_system env0 (opt_output_dir options0) (exp_components exp0) s3 = Some (Inr system_dir, s4)"
    and t': "trace s' = trace s3 @ es @
        [PrepareAmber system_dir ligand_dsl system_pars,
         YankCreate (opt_temperature options0) (opt_pressure options0), YankRun]"
    by blast
  from t3 have "trace s3 =
        [Makedirs ''out/experiments/'',
         ConfigRootLogger False ''out/experiments/experiment.log'',
         YankInit ''out/experiments/'' False (isolate_yank_options options0),
         WriteYaml ''out/experiments/experiment.yaml'' (yaml_sections builder_create exp0)]"
    by (simp add: options0_fields paths0 builder_create_fields)
  moreover from ss have "setup_system env0 ''out'' (exp_components exp0) s3 = Some (Inr system_dir, s4)"
    by (simp add: options0_fields)
  ultimately show "\<exists>s' s3 s4 system_dir es ligand_dsl system_pars.
      run_experiment env0 exp0 [] builder_create = Some (Inr (), s') \<and>
      trace s3 =
        [Makedirs ''out/experiments/'',
         ConfigRootLogger False ''out/experiments/experiment.log'',
         YankInit ''out/experiments/'' False (isolate_yank_options options0),
         WriteYaml ''out/experiments/experiment.yaml'' (yaml_sections builder_create exp0)] \<and>
      setup_system env0 ''out'' (exp_components exp0) s3 = Some (Inr system_dir, s4) \<and>
      trace s' = trace s3 @ es @
        [PrepareAmber system_dir ligand_dsl system_pars,
         YankCreate (opt_temperature options0) (opt_pressure options0), YankRun]"
    using run t' by blast
qed

theorem setup_system_existing_witness:
  "setup_system env0 ''out'' (exp_components exp0) builder_create =
     Some (Inr ''out/setup/systems/rec_lig_pme'', builder_create)"
proof -
  have "molecules builder_create (c_receptor (exp_components exp0)) \<noteq> None"
    "molecules builder_create (c_ligand (exp_components exp0)) \<noteq> None"
    "solvents builder_create (c_solvent (exp_components exp0)) \<noteq> None"
    "fs builder_create (get_system_setup_dir ''out'' (c_receptor (exp_components exp0))
        (c_ligand (exp_components exp0)) (c_solvent (exp_components exp0))) \<noteq> None"
    by (simp_all add: builder_create_fields exp0_fields paths0)
  from setup_system_existing [OF this, of env0] show ?thesis
    by (simp add: exp0_fields paths0)
qed

lemma dict_get_update:
  "dict_get (update_dict base upd) k =
     (case dict_get upd k of Some v \<Rightarrow> Some v | None \<Rightarrow> dict_get base k)"
  by (simp add: dict_get_def update_dict_def pick_def map_add_def split: option.splits)

text \<open>
  Claim C8 as the specification states it fails: the experiment section of the snapshot
  is not the experiment block when that block has options of its own.
\<close>

theorem snapshot_experiment_counterexample:
  "snap_experiment (yaml_sections builder_create exp1) \<noteq> exp1"
  by (simp add: yaml_sections_def exp1_def Let_def)

text \<open>
  Claim C8, amended. For an experiment that is built and not resumed, the snapshot is
  written right after the directory, the logger and the engine are set up, and
  \<open>_setup_system\<close> starts from that state. Its options section is the global options
  section updated key by key with the options of the experiment, its molecule and
  solvent sections are the entries of the raw tables whose id is one of the three
  component ids, and its experiment section is the experiment block without its options.
\<close>

theorem snapshot_contents:
  assumes opts: "experiment_options env s experiment = Inr exp_opts"
    and rd: "results_dir = get_experiment_dir (opt_output_dir exp_opts) experiment_dir"
    and nm: "exp_name = experiment_name experiment_dir"
    and s1: "s1 = (if opt_mpi exp_opts then emit MpiBarrier s else s)"
    and eo: "exp_dict = (case exp_options experiment of None \<Rightarrow> empty_dict | Some d \<Rightarrow> d)"
    and ids: "ids = {c_receptor (exp_components experiment), c_ligand (exp_components experiment),
                     c_solvent (exp_components experiment)}"
    and nodir: "fs s results_dir \<noteq> Some Dir"
    and run: "run_experiment env experiment experiment_dir s = Some (Inr (), s')"
  shows "\<exists>snap s3 s4 system_dir es.
           trace s3 = trace s1 @
             [Makedirs results_dir,
              ConfigRootLogger (opt_verbose exp_opts) (path_join results_dir [exp_name @ ''.log'']),
              YankInit results_dir (opt_mpi exp_opts) (isolate_yank_options exp_opts),
              WriteYaml (path_join results_dir [exp_name @ ''.yaml'']) snap] \<and>
           setup_system env (opt_output_dir exp_opts) (exp_components experiment) s3 =
             Some (Inr system_dir, s4) \<and>
           trace s' = trace s3 @ es \<and>
           (\<forall>k. dict_get (snap_options snap) k =
                  (case dict_get exp_dict k of
                     Some v \<Rightarrow> Some v
                   | None \<Rightarrow> dict_get (raw_options (raw_yaml s)) k)) \<and>
           snap_molecules snap = filter (\<lambda>(i, m). i \<in> ids) (raw_molecules (raw_yaml s)) \<and>
           snap_solvents snap = filter (\<lambda>(i, m). i \<in> ids) (raw_solvents (raw_yaml s)) \<and>
           exp_components (snap_experiment snap) = exp_components experiment \<and>
           exp_options (snap_experiment snap) = None"
proof -
  let ?snap = "yaml_sections s experiment"
  from run_experiment_create [OF opts rd s1 nodir run]
  obtain s2 s4 system_dir ligand path solv where
    m: "makedirs results_dir s1 = (Inr (), s2)"
    and ss: "setup_system env (opt_output_dir exp_opts) (exp_components experiment)
       (s2\<lparr>fs := (fs s2)(path_join results_dir [exp_name @ ''.yaml''] \<mapsto> File),
           trace := trace s2 @
             [ConfigRootLogger (opt_verbose exp_opts) (path_join results_dir [exp_name @ ''.log'']),
              YankInit results_dir (opt_mpi exp_opts) (isolate_yank_options exp_opts),
              WriteYaml (path_join results_dir [exp_name @ ''.yaml'']) ?snap]\<rparr>)
       = Some (Inr system_dir, s4)"
    and s': "s' = s4\<lparr>trace := trace s4 @
            [PrepareAmber system_dir
               (''resname '' @ (case get_mol2_resname env path of None \<Rightarrow> ''MOL'' | Some r \<Rightarrow> r))
               (system_parameters solv exp_opts),
             YankCreate (opt_temperature exp_opts) (opt_pressure exp_opts),
             YankRun]\<rparr>"
    unfolding nm by blast
  let ?s3 = "s2\<lparr>fs := (fs s2)(path_join results_dir [exp_name @ ''.yaml''] \<mapsto> File),
           trace := trace s2 @
             [ConfigRootLogger (opt_verbose exp_opts) (path_join results_dir [exp_name @ ''.log'']),
              YankInit results_dir (opt_mpi exp_opts) (isolate_yank_options exp_opts),
              WriteYaml (path_join results_dir [exp_name @ ''.yaml'']) ?snap]\<rparr>"
  from makedirs_Inr(1) [OF m] have t3: "trace ?s3 = trace s1 @
             [Makedirs results_dir,
              ConfigRootLogger (opt_verbose exp_opts) (path_join results_dir [exp_name @ ''.log'']),
              YankInit results_dir (opt_mpi exp_opts) (isolate_yank_options exp_opts),
              WriteYaml (path_join results_dir [exp_name @ ''.yaml'']) ?snap]"
    by simp
  from setup_system_trace [OF ss] obtain es where "trace s4 = trace ?s3 @ es" ..
  with s' have t': "trace s' = trace ?s3 @ (es @
            [PrepareAmber system_dir
               (''resname '' @ (case get_mol2_resname env path of None \<Rightarrow> ''MOL'' | Some r \<Rightarrow> r))
               (system_parameters solv exp_opts),
             YankCreate (opt_temperature exp_opts) (opt_pressure exp_opts),
             YankRun])"
    by simp
  have o: "\<forall>k. dict_get (snap_options ?snap) k =
                  (case dict_get exp_dict k of
                     Some v \<Rightarrow> Some v
                   | None \<Rightarrow> dict_get (raw_options (raw_yaml s)) k)"
    by (simp add: yaml_sections_def Let_def dict_get_update eo)
  have ms: "snap_molecules ?snap = filter (\<lambda>(i, m). i \<in> ids) (raw_molecules (raw_yaml s))"
    "snap_solvents ?snap = filter (\<lambda>(i, m). i \<in> ids) (raw_solvents (raw_yaml s))"
    by (simp_all add: yaml_sections_def Let_def component_ids_def ids)
  have e: "exp_components (snap_experiment ?snap) = exp_components experiment"
    "exp_options (snap_experiment ?snap) = None"
    by (simp_all add: yaml_sections_def Let_def)
  from t3 ss t' o ms e show ?thesis by blast
qed


lemma exp1_fields:
  "exp_components exp1 = \<lparr>c_receptor = ''rec'', c_ligand = ''lig'', c_solvent = ''pme''\<rparr>"
  "exp_options exp1 = Some (empty_dict\<lparr>o_verbose := Some True\<rparr>)"
  by (simp_all add: exp1_def)

lemma options_exp1:
  "experiment_options env0 builder_create exp1 = Inr (options0\<lparr>opt_verbose := True\<rparr>)"
  by (simp add: experiment_options_def env0_def exp1_fields builder_create_fields
      update_options_def empty_dict_def options0_def)

lemma run_create1:
  "\<exists>s'. run_experiment env0 exp1 [] builder_create = Some (Inr (), s')"
  by (simp add: run_experiment_def options_exp1 Let_def options0_fields paths0 builder_create_fields
      makedirs_def emit_def create_experiment_def generate_yaml_def exp1_fields
      setup_system_def mol_file2_def)

theorem snapshot_contents_witness:
  "\<exists>s' snap s3 s4 system_dir es.
     run_experiment env0 exp1 [] builder_create = Some (Inr (), s') \<and>
     trace s3 =
       [Makedirs ''out/experiments/'',
        ConfigRootLogger True ''out/experiments/experiment.log'',
        YankInit ''out/experiments/'' False (isolate_yank_options (options0\<lparr>opt_verbose := True\<rparr>)),
        WriteYaml ''out/experiments/experiment.yaml'' snap] \<and>
     setup_system env0 ''out'' (exp_components exp1) s3 = Some (Inr system_dir, s4) \<and>
     trace s' = trace s3 @ es \<and>
     dict_get (snap_options snap) ''verbose'' = Some (VBool True) \<and>
     dict_get (snap_options snap) ''output_dir'' = Some (VStr ''out'') \<and>
     snap_molecules snap = [(''rec'', [(''filepath'', VStr ''rec.pdb'')]),
                            (''lig'', [(''name'', VStr ''toluene'')])] \<and>
     snap_solvents snap = [(''pme'', [(''nonbondedMethod'', VStr ''PME'')])] \<and>
     exp_options (snap_experiment snap) = None"
proof -
  let ?o = "options0\<lparr>opt_verbose := True\<rparr>"
  obtain s' where run: "run_experiment env0 exp1 [] builder_create = Some (Inr (), s')"
    using run_create1 ..
  have nodir: "fs builder_create (get_experiment_dir (opt_output_dir ?o) []) \<noteq> Some Dir"
    by (simp add: builder_create_fields options0_fields paths0)
  have s1: "builder_create = (if opt_mpi ?o then emit MpiBarrier builder_create else builder_create)"
    by (simp add: options0_fields)
  from snapshot_contents [OF options_exp1 refl refl s1 refl refl nodir run]
  obtain snap s3 s4 system_dir es where
    t3: "trace s3 = trace builder_create @
             [Makedirs (get_experiment_dir (opt_output_dir ?o) []),
              ConfigRootLogger (opt_verbose ?o)
                (path_join (get_experiment_dir (opt_output_dir ?o) []) [experiment_name [] @ ''.log'']),
              YankInit (get_experiment_dir (opt_output_dir ?o) []) (opt_mpi ?o) (isolate_yank_options ?o),
              WriteYaml (path_join (get_experiment_dir (opt_output_dir ?o) []) [experiment_name [] @ ''.yaml'']) snap]"
    and ss: "setup_system env0 (opt_output_dir ?o) (exp_components exp1) s3 = Some (Inr system_dir, s4)"
    and t': "trace s' = trace s3 @ es"
    and o: "\<forall>k. dict_get (snap_options snap) k =
                  (case dict_get (case exp_options exp1 of None \<Rightarrow> empty_dict | Some d \<Rightarrow> d) k of
                     Some v \<Rightarrow> Some v
                   | None \<Rightarrow> dict_get (raw_options (raw_yaml builder_create)) k)"
    and m: "snap_molecules snap = filter (\<lambda>(i, m). i \<in> {c_receptor (exp_components exp1),
                c_ligand (exp_components exp1), c_solvent (exp_components exp1)})
              (raw_molecules (raw_yaml builder_create))"
    and sv: "snap_solvents snap = filter (\<lambda>(i, m). i \<in> {c_receptor (exp_components exp1),
                c_ligand (exp_components exp1), c_solvent (exp_components exp1)})
              (raw_solvents (raw_yaml builder_create))"
    and e: "exp_options (snap_experiment snap) = None"
    by blast
  from t3 have a: "trace s3 =
       [Makedirs ''out/experiments/'',
        ConfigRootLogger True ''out/experiments/experiment.log'',
        YankInit ''out/experiments/'' False (isolate_yank_options ?o),
        WriteYaml ''out/experiments/experiment.yaml'' snap]"
    by (simp add: options0_fields paths0 builder_create_fields)
  from ss have b: "setup_system env0 ''out'' (exp_components exp1) s3 = Some (Inr system_dir, s4)"
    by (simp add: options0_fields)
  have v: "dict_get (empty_dict\<lparr>o_verbose := Some True\<rparr>) ''verbose'' = Some (VBool True)"
    "dict_get (empty_dict\<lparr>o_verbose := Some True\<rparr>) ''output_dir'' = None"
    "dict_get (raw_options raw0) ''output_dir'' = Some (VStr ''out'')"
    by (simp_all add: dict_get_def empty_dict_def raw0_def)
  from o [rule_format, of "''verbose''"] o [rule_format, of "''output_dir''"]
  have c: "dict_get (snap_options snap) ''verbose'' = Some (VBool True)"
    "dict_get (snap_options snap) ''output_dir'' = Some (VStr ''out'')"
    by (simp_all add: exp1_fields builder_create_fields v)
  from m have d: "snap_molecules snap = [(''rec'', [(''filepath'', VStr ''rec.pdb'')]),
                            (''lig'', [(''name'', VStr ''toluene'')])]"
    by (simp add: exp1_fields builder_create_fields raw0_def)
  from sv have f: "snap_solvents snap = [(''pme'', [(''nonbondedMethod'', VStr ''PME'')])]"
    by (simp add: exp1_fields builder_create_fields raw0_def)
  from run a b t' c d f e show ?thesis by blast
qed

section \<open>The pre-flight check: properties\<close>












section \<open>The molecule stage: properties\<close>

subsection \<open>The overlap check of the fixed molecules\<close>





subsection \<open>Which molecules are generated and where the fixed ones are\<close>











subsection \<open>What the steps of the stage keep\<close>











subsection \<open>Overlapping fixed molecules\<close>









subsection \<open>Generated molecules are written again\<close>

lemma molecule_paths:
  "get_molecule_setup_dir ''out'' ''rec'' = ''out/setup/molecules/rec''"
  "get_molecule_setup_dir ''out'' ''lig'' = ''out/setup/molecules/lig''"
  "path_join ''out/setup/molecules/rec'' [''rec.mol2''] = ''out/setup/molecules/rec/rec.mol2''"
  "path_join ''out/setup/molecules/lig'' [''lig.mol2''] = ''out/setup/molecules/lig/lig.mol2''"
  "path_join ''out/setup/molecules/rec'' [''rec.gaff.mol2''] = ''out/setup/molecules/rec/rec.gaff.mol2''"
  "path_join ''out/setup/molecules/lig'' [''lig.gaff.mol2''] = ''out/setup/molecules/lig/lig.gaff.mol2''"
  "path_join ''out/setup/molecules/rec'' [''rec.frcmod''] = ''out/setup/molecules/rec/rec.frcmod''"
  "path_join ''out/setup/molecules/lig'' [''lig.frcmod''] = ''out/setup/molecules/lig/lig.frcmod''"
  "ancestors ''out/setup/molecules/rec'' = [''out'', ''out/setup'', ''out/setup/molecules'']"
  "ancestors ''out/setup/molecules/lig'' = [''out'', ''out/setup'', ''out/setup/molecules'']"
  "residue_name_of ''rec'' = ''REC''"
  "residue_name_of ''lig'' = ''LIG''"
  by code_simp+

lemma remove_overlap_values_clear:
  "remove_overlap_values rnd [(Fin 3, Fin 0, Fin 0)] [[(Fin 0, Fin 0, Fin 0)]] (Fin 1) (Fin 1) =
     Some (Inr ([(Fin 3, Fin 0, Fin 0)], 0))"
  apply (simp add: remove_overlap_values_def remove_overlap_def alloc_def)
  apply (subst remove_overlap_loop.simps)
  apply (simp add: cmd_b)
  done

lemma builder_generated_fields:
  "molecules builder_generated ''rec'' = Some mol_by_name2"
  "molecules builder_generated ''lig'' = Some mol_by_name"
  "oe_molecules builder_generated = Map.empty"
  "fixed_pos_cache builder_generated = Map.empty"
  "fs builder_generated = Map.empty"
  "trace builder_generated = []"
  "draws builder_generated = 0"
  by (simp_all add: builder_generated_def builder0_def)

lemma env0_fields:
  "is_openeye_installed env0" "abspath env0 p = ''/cwd/'' @ p"
  by (simp_all add: env0_def)

lemma generated0:
  "file_mol_ids_of builder_generated [''rec'', ''lig''] = Inr []"
  "generate_missing env0 builder_generated [] [''rec'', ''lig''] =
     Inr [(''rec'', \<lparr>oe_built_from = ''benzene'', oe_positions = [(Fin 0, Fin 0, Fin 0)]\<rparr>),
          (''lig'', \<lparr>oe_built_from = ''toluene'', oe_positions = [(Fin 3, Fin 0, Fin 0)]\<rparr>)]"
  by (simp_all add: builder_generated_fields mol_by_name_def mol_by_name2_def
      generate_molecule_def env0_def)

lemma setup_generated:
  "\<exists>s'. setup_molecules env0 ''out'' [''rec'', ''lig''] builder_generated = Some (Inr (), s') \<and>
     trace s' =
       [Makedirs ''out/setup/molecules/rec'',
        MoleculeToMol2 \<lparr>oe_built_from = ''toluene'', oe_positions = [(Fin 3, Fin 0, Fin 0)]\<rparr>
          ''out/setup/molecules/rec/rec.mol2'' ''REC'',
        RunAntechamber ''out/setup/molecules/rec'' ''rec'' ''/cwd/out/setup/molecules/rec/rec.mol2'',
        Makedirs ''out/setup/molecules/lig'',
        MoleculeToMol2 \<lparr>oe_built_from = ''toluene'', oe_positions = [(Fin 3, Fin 0, Fin 0)]\<rparr>
          ''out/setup/molecules/lig/lig.mol2'' ''LIG'',
        RunAntechamber ''out/setup/molecules/lig'' ''lig'' ''/cwd/out/setup/molecules/lig/lig.mol2''] \<and>
     oe_molecules s' ''rec'' =
       Some \<lparr>oe_built_from = ''benzene'', oe_positions = [(Fin 0, Fin 0, Fin 0)]\<rparr>"
  by (simp add: setup_molecules_def generated0 Let_def map_update_all_def fixed_positions_def
      builder_generated_fields remove_overlap_values_clear save_molecule_def molecule_paths
      makedirs_def emit_def process_molecule_def write_generated_def run_epik_step_def
      run_antechamber_step_def mol_by_name_def mol_by_name2_def env0_fields
      del: generate_missing.simps file_mol_ids_of.simps)



text \<open>
  The two halves of the last loop: a molecule that is not generated and whose directory
  exists is left alone, and a generated molecule whose directory exists is written again,
  from the object bound to the local \<open>molecule\<close>.
\<close>

lemma save_molecule_file_skipped:
  assumes "molecules s mol_id = Some mol_descr" "oe_molecules s mol_id = None"
    and "mol_parameters mol_descr \<noteq> None"
    and "fs s (get_molecule_setup_dir output_dir mol_id) \<noteq> None"
  shows "save_molecule env output_dir molecule mol_id s = (Inr (), s)"
  using assms by (auto simp: save_molecule_def Let_def split: option.splits bool.splits)

lemma save_molecule_generated_rewritten:
  assumes "molecules s mol_id = Some mol_descr" "oe_molecules s mol_id \<noteq> None"
    and "oe_molecules s bound = Some obj"
    and "fs s (get_molecule_setup_dir output_dir mol_id) \<noteq> None"
  shows "\<exists>r s' es. save_molecule env output_dir (Some bound) mol_id s = (r, s') \<and>
           trace s' = trace s @
             MoleculeToMol2 obj
               (path_join (get_molecule_setup_dir output_dir mol_id) [mol_id @ ''.mol2''])
               (residue_name_of mol_id) # es"
  using assms
  by (auto simp: save_molecule_def process_molecule_def write_generated_def run_epik_step_def
      run_antechamber_step_def emit_def Let_def split: option.splits bool.splits)


end
